theory Spec2Isabelle
  imports Main
begin

section \<open>Errors and results\<close>

text \<open>
  The typed errors of the AWS SDK that the controller tests with \<open>errors.As\<close>
  (\<open>s3types.NotFound\<close>, \<open>s3types.NoSuchBucket\<close>, \<open>r53types.NoSuchHostedZone\<close>,
  \<open>r53types.HostedZoneAlreadyExists\<close>); every other remote failure is \<open>OtherAwsError\<close>.
\<close>

datatype aws_error =
    NotFound
  | NoSuchBucket
  | NoSuchHostedZone
  | HostedZoneAlreadyExists
  | OtherAwsError string

text \<open>Errors of the intent store; \<open>apierrors.IsNotFound\<close> recognises \<open>K8sNotFound\<close>.\<close>

datatype k8s_error = K8sNotFound | K8sOtherError string

text \<open>
  A Go \<open>error\<close> value: an SDK error, a store error, \<open>errors.New msg\<close> (also
  \<open>fmt.Errorf\<close> without \<open>%w\<close>), or \<open>fmt.Errorf("msg: %w", err)\<close>, which keeps the
  wrapped error.
\<close>

datatype go_error =
    AwsError aws_error
  | ApiError k8s_error
  | ErrorString string
  | Errorf string go_error

text \<open>
  What a call of a controller function does: it returns a value with a nil error, returns a
  non-nil error, or panics on a nil pointer dereference.
\<close>

datatype 'a result = Ok 'a | Err go_error | Panic

section \<open>The intent object (api/v1alpha1)\<close>

datatype time = ZeroTime | UnixTime int

record ParkedDomainSpec =
  DomainName :: string
  Region :: string
  TemplateName :: string

text \<open>The Go field \<open>ParkedDomainStatus.Status\<close> is \<open>StatusTag\<close> here: the name
  \<open>Status\<close> is taken by the field of \<open>ParkedDomain\<close>.\<close>

record ParkedDomainStatus =
  StatusTag :: string
  ZoneID :: string
  NameServers :: "string list"

record ParkedDomain =
  Name :: string
  Namespace :: string
  DeletionTimestamp :: "time option"
  Finalizers :: "string list"
  Spec :: ParkedDomainSpec
  Status :: ParkedDomainStatus

definition finalizerName :: string where
  "finalizerName = ''parking.minibaev.eu/finalizer''"

text \<open>\<open>DeletionTimestamp.IsZero()\<close>: a nil pointer or the zero time.\<close>

fun IsZero :: "time option \<Rightarrow> bool" where
  "IsZero None = True"
| "IsZero (Some ZeroTime) = True"
| "IsZero (Some (UnixTime t)) = False"

text \<open>The three helpers of \<open>controllerutil\<close> on the finalizer list of the object.\<close>

definition ContainsFinalizer :: "ParkedDomain \<Rightarrow> string \<Rightarrow> bool" where
  "ContainsFinalizer pd f = (f \<in> set (Finalizers pd))"

definition AddFinalizer :: "ParkedDomain \<Rightarrow> string \<Rightarrow> ParkedDomain" where
  "AddFinalizer pd f =
     (if f \<in> set (Finalizers pd) then pd else pd\<lparr>Finalizers := Finalizers pd @ [f]\<rparr>)"

definition RemoveFinalizer :: "ParkedDomain \<Rightarrow> string \<Rightarrow> ParkedDomain" where
  "RemoveFinalizer pd f = pd\<lparr>Finalizers := filter (\<lambda>g. g \<noteq> f) (Finalizers pd)\<rparr>"

section \<open>Remote data\<close>

record HostedZone =
  HostedZone_Id :: string
  HostedZone_Name :: string

text \<open>\<open>DelegationSet\<close> is a pointer in both outputs; \<open>None\<close> is nil (a private hosted
  zone has no delegation set). The option holds \<open>DelegationSet.NameServers\<close>.\<close>

record CreateHostedZoneOutput =
  Created_HostedZone :: HostedZone
  Created_DelegationSet :: "string list option"

record GetHostedZoneOutput =
  Got_DelegationSet :: "string list option"

record AliasTarget =
  HostedZoneId :: string
  DNSName :: string
  EvaluateTargetHealth :: bool

record ResourceRecordSet =
  RecordName :: string
  RecordType :: string
  RecordAliasTarget :: "AliasTarget option"

datatype ChangeAction = ChangeActionCreate | ChangeActionDelete | ChangeActionUpsert

record Change =
  Action :: ChangeAction
  ChangeRecordSet :: ResourceRecordSet

record ChangeBatch =
  Comment :: "string option"
  Changes :: "Change list"

record Object =
  Key :: string

text \<open>
  What a paginator yields while the loop \<open>for paginator.HasMorePages()\<close> runs: the first
  request is always sent; a page that carries a continuation token is followed by another
  request, a page without one ends the loop, and a failed request ends it with the error.
  The remote side is taken to end the listing after finitely many pages.
\<close>

datatype 'a pages =
    LastPage "'a list"
  | NextPage "'a list" "'a pages"
  | PageError aws_error

section \<open>The clients\<close>

text \<open>
  Each client is the table of answers of the remote side to the requests of one
  invocation, in the shape of the mock clients of the controller test. A request is
  identified by the inputs the controller passes.
\<close>

record s3_client =
  HeadBucket :: "string \<Rightarrow> aws_error option"
  CreateBucket :: "string \<Rightarrow> string option \<Rightarrow> aws_error option"
  PutObject :: "string \<Rightarrow> string \<Rightarrow> string \<Rightarrow> string \<Rightarrow> aws_error option"
  PutBucketWebsite :: "string \<Rightarrow> string \<Rightarrow> aws_error option"
  PutBucketPolicy :: "string \<Rightarrow> string \<Rightarrow> aws_error option"
  ListObjectsV2 :: "string \<Rightarrow> Object pages"
  DeleteObjects :: "string \<Rightarrow> string list \<Rightarrow> aws_error option"
  DeleteBucket :: "string \<Rightarrow> aws_error option"

record r53_client =
  ListHostedZonesByName :: "string \<Rightarrow> aws_error + HostedZone list"
  GetHostedZone :: "string \<Rightarrow> aws_error + GetHostedZoneOutput"
  CreateHostedZone :: "string \<Rightarrow> string \<Rightarrow> aws_error + CreateHostedZoneOutput"
  ChangeResourceRecordSets :: "string \<Rightarrow> ChangeBatch \<Rightarrow> aws_error option"
  ListResourceRecordSets :: "string \<Rightarrow> ResourceRecordSet pages"
  DeleteHostedZone :: "string \<Rightarrow> aws_error option"

text \<open>The intent store: \<open>r.Get\<close> of the intent and of the template ConfigMap (its
  \<open>Data\<close>), \<open>r.Update\<close> and \<open>r.Status().Update\<close>.\<close>

record k8s_client =
  Get :: "string \<times> string \<Rightarrow> k8s_error + ParkedDomain"
  GetConfigMap :: "string \<times> string \<Rightarrow> k8s_error + (string \<rightharpoonup> string)"
  Update :: "ParkedDomain \<Rightarrow> k8s_error option"
  StatusUpdate :: "ParkedDomain \<Rightarrow> k8s_error option"

text \<open>
  The reconciler with what it reads from its process: \<open>Getenv\<close> is \<open>os.Getenv\<close>,
  \<open>Now\<close> is \<open>time.Now().Unix()\<close>. \<open>S3Client\<close> is the field of the struct in the
  controller file; \<open>GetClient\<close> is \<open>S3ClientFactory.GetClient\<close>, which the S3 helpers of
  \<open>aws_s3_helpers.go\<close> call.
\<close>

record Reconciler =
  Client :: k8s_client
  S3Client :: s3_client
  GetClient :: "string \<Rightarrow> go_error + s3_client"
  R53Client :: r53_client
  Getenv :: "string \<Rightarrow> string"
  Now :: int

text \<open>The requests sent in one invocation, in order.\<close>

datatype call =
    S3_GetClient string
  | S3_HeadBucket string
  | S3_CreateBucket string "string option"
  | S3_PutObject string string string string
  | S3_PutBucketWebsite string string
  | S3_PutBucketPolicy string string
  | S3_ListObjectsV2 string
  | S3_DeleteObjects string "string list"
  | S3_DeleteBucket string
  | R53_ListHostedZonesByName string
  | R53_GetHostedZone string
  | R53_CreateHostedZone string string
  | R53_ChangeResourceRecordSets string ChangeBatch
  | R53_ListResourceRecordSets string
  | R53_DeleteHostedZone string
  | K8s_Get "string \<times> string"
  | K8s_GetConfigMap "string \<times> string"
  | K8s_Update ParkedDomain
  | K8s_StatusUpdate ParkedDomain

text \<open>A request that changes remote state; the others only read.\<close>

fun mutating :: "call \<Rightarrow> bool" where
  "mutating (S3_GetClient _) = False"
| "mutating (S3_HeadBucket _) = False"
| "mutating (S3_ListObjectsV2 _) = False"
| "mutating (R53_ListHostedZonesByName _) = False"
| "mutating (R53_GetHostedZone _) = False"
| "mutating (R53_ListResourceRecordSets _) = False"
| "mutating (K8s_Get _) = False"
| "mutating (K8s_GetConfigMap _) = False"
| "mutating _ = True"

section \<open>Strings\<close>

text \<open>
  \<open>strings.Replace s old new n\<close> for \<open>n \<ge> 0\<close> and \<open>strings.ReplaceAll\<close>, for a
  non-empty \<open>old\<close>, which is what every call site passes: matches are found from left to
  right and do not overlap.
\<close>

fun strings_Replace :: "string \<Rightarrow> string \<Rightarrow> string \<Rightarrow> nat \<Rightarrow> string" where
  "strings_Replace s (p # ps) new 0 = s"
| "strings_Replace [] (p # ps) new (Suc k) = []"
| "strings_Replace (c # cs) (p # ps) new (Suc k) =
     (if take (Suc (length ps)) (c # cs) = p # ps
      then new @ strings_Replace (drop (length ps) cs) (p # ps) new k
      else c # strings_Replace cs (p # ps) new (Suc k))"

fun strings_ReplaceAll :: "string \<Rightarrow> string \<Rightarrow> string \<Rightarrow> string" where
  "strings_ReplaceAll [] (p # ps) new = []"
| "strings_ReplaceAll (c # cs) (p # ps) new =
     (if take (Suc (length ps)) (c # cs) = p # ps
      then new @ strings_ReplaceAll (drop (length ps) cs) (p # ps) new
      else c # strings_ReplaceAll cs (p # ps) new)"

text \<open>The verb \<open>%d\<close> of \<open>fmt.Sprintf\<close> on an integer.\<close>

fun digits :: "nat \<Rightarrow> string" where
  "digits n = (if n < 10 then [''0123456789'' ! n]
               else digits (n div 10) @ [''0123456789'' ! (n mod 10)])"

definition Sprintf_d :: "int \<Rightarrow> string" where
  "Sprintf_d i = (if i < 0 then CHR ''-'' # digits (nat (- i)) else digits (nat i))"

declare digits.simps [simp del]

section \<open>Record driver\<close>

definition s3HostedZoneIDs :: "(string \<times> string) list" where
  "s3HostedZoneIDs =
     [(''us-east-1'', ''Z3AQBSTGFYJSTF''),
      (''us-west-1'', ''Z2F56UZL2M1ACD''),
      (''us-west-2'', ''Z3BJ6K6RIION7M''),
      (''eu-west-1'', ''Z1BKCTXD74EZPE''),
      (''eu-central-1'', ''Z21DNDUVLTQW6Q'')]"

text \<open>Indexing a Go map with an absent key gives the zero value, the empty string.\<close>

definition getS3WebsiteHostedZoneID :: "string \<Rightarrow> string" where
  "getS3WebsiteHostedZoneID region =
     (case map_of s3HostedZoneIDs region of None \<Rightarrow> [] | Some z \<Rightarrow> z)"

definition defaultRegion :: "ParkedDomain \<Rightarrow> string" where
  "defaultRegion pd = (if Region (Spec pd) = [] then ''eu-central-1'' else Region (Spec pd))"

definition aliasChangeBatch :: "ParkedDomain \<Rightarrow> string \<Rightarrow> string \<Rightarrow> ChangeBatch" where
  "aliasChangeBatch pd s3HostedZoneID s3Endpoint =
     \<lparr>Comment = Some ''Managed by ParkedDomain Operator'',
      Changes =
        [\<lparr>Action = ChangeActionUpsert,
          ChangeRecordSet =
            \<lparr>RecordName = DomainName (Spec pd),
             RecordType = ''A'',
             RecordAliasTarget =
               Some \<lparr>HostedZoneId = s3HostedZoneID,
                     DNSName = s3Endpoint,
                     EvaluateTargetHealth = False\<rparr>\<rparr>\<rparr>]\<rparr>"

definition reconcileRoute53ARecord ::
  "Reconciler \<Rightarrow> ParkedDomain \<Rightarrow> string \<Rightarrow> string \<Rightarrow> unit result \<times> call list" where
  "reconcileRoute53ARecord r pd zoneID s3Endpoint =
     (let region = defaultRegion pd;
          s3HostedZoneID = getS3WebsiteHostedZoneID region
      in if s3HostedZoneID = []
         then (Err (ErrorString (''unsupported S3 website region for alias record: '' @ region)), [])
         else
           (let changeBatch = aliasChangeBatch pd s3HostedZoneID s3Endpoint
            in case ChangeResourceRecordSets (R53Client r) zoneID changeBatch of
                 Some e \<Rightarrow>
                   (Err (Errorf ''failed to create/update A record'' (AwsError e)),
                    [R53_ChangeResourceRecordSets zoneID changeBatch])
               | None \<Rightarrow> (Ok (), [R53_ChangeResourceRecordSets zoneID changeBatch])))"

section \<open>Zone driver\<close>

text \<open>
  The inner loop of \<open>cleanupRoute53Zone\<close>: one delete change for each record of the page
  that is neither NS nor SOA. The loop variable is a fresh variable in each iteration (Go
  1.22 and later), so each change points at its own record.
\<close>

definition deleteChanges :: "ResourceRecordSet list \<Rightarrow> Change list" where
  "deleteChanges records =
     map (\<lambda>record. \<lparr>Action = ChangeActionDelete, ChangeRecordSet = record\<rparr>)
       (filter (\<lambda>record. RecordType record \<noteq> ''NS'' \<and> RecordType record \<noteq> ''SOA'') records)"

text \<open>The paginator loop: the changes collected, or the error of the failed request.\<close>

fun listRecordSets ::
  "string \<Rightarrow> ResourceRecordSet pages \<Rightarrow> Change list \<Rightarrow> (aws_error + Change list) \<times> call list" where
  "listRecordSets zoneID (PageError e) changes = (Inl e, [R53_ListResourceRecordSets zoneID])"
| "listRecordSets zoneID (LastPage records) changes =
     (Inr (changes @ deleteChanges records), [R53_ListResourceRecordSets zoneID])"
| "listRecordSets zoneID (NextPage records rest) changes =
     (case listRecordSets zoneID rest (changes @ deleteChanges records) of
        (res, tr) \<Rightarrow> (res, R53_ListResourceRecordSets zoneID # tr))"

definition deleteZone :: "Reconciler \<Rightarrow> string \<Rightarrow> unit result \<times> call list" where
  "deleteZone r zoneID =
     (case DeleteHostedZone (R53Client r) zoneID of
        Some e \<Rightarrow>
          (if e \<noteq> NoSuchHostedZone
           then (Err (Errorf ''failed to delete Hosted Zone'' (AwsError e)),
                 [R53_DeleteHostedZone zoneID])
           else (Ok (), [R53_DeleteHostedZone zoneID]))
      | None \<Rightarrow> (Ok (), [R53_DeleteHostedZone zoneID]))"

definition cleanupRoute53Zone :: "Reconciler \<Rightarrow> ParkedDomain \<Rightarrow> unit result \<times> call list" where
  "cleanupRoute53Zone r pd =
     (let zoneID = ZoneID (Status pd)
      in if zoneID = [] then (Ok (), [])
         else
           (case listRecordSets zoneID (ListResourceRecordSets (R53Client r) zoneID) [] of
              (Inl e, tr) \<Rightarrow>
                (Err (Errorf ''failed to list records in Hosted Zone'' (AwsError e)), tr)
            | (Inr changes, tr) \<Rightarrow>
                (if changes \<noteq> []
                 then
                   (let batch = \<lparr>Comment = None, Changes = changes\<rparr>
                    in case ChangeResourceRecordSets (R53Client r) zoneID batch of
                         Some e \<Rightarrow>
                           (Err (Errorf ''failed to delete records from Hosted Zone'' (AwsError e)),
                            tr @ [R53_ChangeResourceRecordSets zoneID batch])
                       | None \<Rightarrow>
                           (case deleteZone r zoneID of
                              (res, tr') \<Rightarrow>
                                (res, tr @ [R53_ChangeResourceRecordSets zoneID batch] @ tr')))
                 else (case deleteZone r zoneID of (res, tr') \<Rightarrow> (res, tr @ tr')))))"

definition callerReference :: "Reconciler \<Rightarrow> ParkedDomain \<Rightarrow> string" where
  "callerReference r pd = ''parkeddomain-operator-'' @ Name pd @ ''-'' @ Sprintf_d (Now r)"

definition stripHostedZone :: "string \<Rightarrow> string" where
  "stripHostedZone zid = strings_Replace zid ''/hostedzone/'' [] 1"

text \<open>The tail of both variants of \<open>reconcileRoute53Zone\<close>: the identifier and the
  nameservers of a created zone.\<close>

definition createdZone :: "CreateHostedZoneOutput \<Rightarrow> (string \<times> string list) result" where
  "createdZone out =
     (case Created_DelegationSet out of
        None \<Rightarrow> Panic
      | Some ns \<Rightarrow> Ok (stripHostedZone (HostedZone_Id (Created_HostedZone out)), ns))"

text \<open>\<open>reconcileRoute53Zone\<close>, the variant that lists hosted zones by name and adopts an
  exact match.\<close>

definition reconcileRoute53Zone ::
  "Reconciler \<Rightarrow> ParkedDomain \<Rightarrow> (string \<times> string list) result \<times> call list" where
  "reconcileRoute53Zone r pd =
     (let domainName = DomainName (Spec pd)
      in case ListHostedZonesByName (R53Client r) domainName of
           Inl e \<Rightarrow>
             (Err (Errorf ''failed to list hosted zones'' (AwsError e)),
              [R53_ListHostedZonesByName domainName])
         | Inr hostedZones \<Rightarrow>
             (if hostedZones \<noteq> [] \<and> HostedZone_Name (hd hostedZones) = domainName @ ''.''
              then
                (let existingZone = hd hostedZones;
                     zoneID = stripHostedZone (HostedZone_Id existingZone)
                 in case GetHostedZone (R53Client r) (HostedZone_Id existingZone) of
                      Inl e \<Rightarrow>
                        (Err (Errorf ''failed to get details for existing hosted zone'' (AwsError e)),
                         [R53_ListHostedZonesByName domainName,
                          R53_GetHostedZone (HostedZone_Id existingZone)])
                    | Inr getZoneOutput \<Rightarrow>
                        (case Got_DelegationSet getZoneOutput of
                           None \<Rightarrow>
                             (Panic,
                              [R53_ListHostedZonesByName domainName,
                               R53_GetHostedZone (HostedZone_Id existingZone)])
                         | Some nameservers \<Rightarrow>
                             (Ok (zoneID, nameservers),
                              [R53_ListHostedZonesByName domainName,
                               R53_GetHostedZone (HostedZone_Id existingZone)])))
              else
                (case CreateHostedZone (R53Client r) domainName (callerReference r pd) of
                   Inl e \<Rightarrow>
                     (Err (Errorf ''failed to create Route 53 Hosted Zone'' (AwsError e)),
                      [R53_ListHostedZonesByName domainName,
                       R53_CreateHostedZone domainName (callerReference r pd)])
                 | Inr createOutput \<Rightarrow>
                     (createdZone createOutput,
                      [R53_ListHostedZonesByName domainName,
                       R53_CreateHostedZone domainName (callerReference r pd)]))))"

text \<open>\<open>reconcileRoute53Zone\<close>, the variant that trusts a recorded zone identifier and
  answers a name conflict with a fixed identifier.\<close>

definition reconcileRoute53Zone_placeholder ::
  "Reconciler \<Rightarrow> ParkedDomain \<Rightarrow> (string \<times> string list) result \<times> call list" where
  "reconcileRoute53Zone_placeholder r pd =
     (let domainName = DomainName (Spec pd)
      in if ZoneID (Status pd) \<noteq> []
         then (Ok (ZoneID (Status pd), NameServers (Status pd)), [])
         else
           (case CreateHostedZone (R53Client r) domainName (callerReference r pd) of
              Inl e \<Rightarrow>
                (if e = HostedZoneAlreadyExists
                 then (Ok (''EXISTING_ZONE_ID_PLACEHOLDER'', []),
                       [R53_CreateHostedZone domainName (callerReference r pd)])
                 else (Err (Errorf ''failed to create Route 53 Hosted Zone'' (AwsError e)),
                       [R53_CreateHostedZone domainName (callerReference r pd)]))
            | Inr output \<Rightarrow>
                (createdZone output, [R53_CreateHostedZone domainName (callerReference r pd)])))"

section \<open>Bucket driver\<close>

text \<open>Step 1 of \<open>reconcileS3Bucket\<close>: the existence check and, for a bucket not found,
  the creation; the location constraint is left out for \<open>us-east-1\<close> only.\<close>

definition ensureBucket :: "s3_client \<Rightarrow> string \<Rightarrow> string \<Rightarrow> go_error option \<times> call list" where
  "ensureBucket s3Client bucketName region =
     (case HeadBucket s3Client bucketName of
        None \<Rightarrow> (None, [S3_HeadBucket bucketName])
      | Some e \<Rightarrow>
          (if e = NotFound
           then
             (let constraint = (if region \<noteq> ''us-east-1'' then Some region else None)
              in case CreateBucket s3Client bucketName constraint of
                   Some createErr \<Rightarrow>
                     (Some (Errorf ''failed to create S3 bucket'' (AwsError createErr)),
                      [S3_HeadBucket bucketName, S3_CreateBucket bucketName constraint])
                 | None \<Rightarrow>
                     (None, [S3_HeadBucket bucketName, S3_CreateBucket bucketName constraint]))
           else (Some (Errorf ''failed to check S3 bucket existence'' (AwsError e)),
                 [S3_HeadBucket bucketName])))"

definition apostrophe :: string where
  "apostrophe = [CHR 0x27]"

text \<open>Step 2, up to the substitution: the template of the ConfigMap with the placeholder
  replaced by the domain name.\<close>

definition finalContent :: "Reconciler \<Rightarrow> ParkedDomain \<Rightarrow> (go_error + string) \<times> call list" where
  "finalContent r pd =
     (let cmName = Getenv r ''TEMPLATE_CONFIGMAP_NAME''
      in if cmName = []
         then (Inl (ErrorString ''TEMPLATE_CONFIGMAP_NAME environment variable must be set''), [])
         else
           (let cmNamespace =
                  (if Getenv r ''TEMPLATE_CONFIGMAP_NAMESPACE'' = [] then Namespace pd
                   else Getenv r ''TEMPLATE_CONFIGMAP_NAMESPACE'');
                templateName =
                  (if TemplateName (Spec pd) = [] then ''default.html'' else TemplateName (Spec pd))
            in case GetConfigMap (Client r) (cmName, cmNamespace) of
                 Inl e \<Rightarrow>
                   (Inl (Errorf (''failed to get template ConfigMap '' @ apostrophe @ cmName
                                 @ apostrophe @ '' in namespace '' @ apostrophe @ cmNamespace
                                 @ apostrophe) (ApiError e)),
                    [K8s_GetConfigMap (cmName, cmNamespace)])
               | Inr templateData \<Rightarrow>
                   (case templateData templateName of
                      None \<Rightarrow>
                        (Inl (ErrorString (''template key '' @ apostrophe @ templateName
                                           @ apostrophe @ '' not found in ConfigMap ''
                                           @ apostrophe @ cmName @ apostrophe)),
                         [K8s_GetConfigMap (cmName, cmNamespace)])
                    | Some templateContent \<Rightarrow>
                        (Inr (strings_ReplaceAll templateContent ''{{DOMAIN_NAME}}''
                                (DomainName (Spec pd))),
                         [K8s_GetConfigMap (cmName, cmNamespace)]))))"

definition bucketPolicy :: "string \<Rightarrow> string" where
  \<open>bucketPolicy bucketName =
     ''{"Version":"2012-10-17","Statement":[{"Sid":"PublicReadGetObject","Effect":"Allow","Principal":"*","Action":"s3:GetObject","Resource":"arn:aws:s3:::''
     @ bucketName @ ''/*"}]}''\<close>

text \<open>The upload of the index object, step 3 (website hosting) and step 4 (policy).\<close>

definition configureBucket :: "s3_client \<Rightarrow> string \<Rightarrow> string \<Rightarrow> go_error option \<times> call list" where
  "configureBucket s3Client bucketName content =
     (case PutObject s3Client bucketName ''index.html'' content ''text/html'' of
        Some e \<Rightarrow>
          (Some (Errorf ''failed to upload final index.html'' (AwsError e)),
           [S3_PutObject bucketName ''index.html'' content ''text/html''])
      | None \<Rightarrow>
          (case PutBucketWebsite s3Client bucketName ''index.html'' of
             Some e \<Rightarrow>
               (Some (Errorf ''failed to enable S3 static website hosting'' (AwsError e)),
                [S3_PutObject bucketName ''index.html'' content ''text/html'',
                 S3_PutBucketWebsite bucketName ''index.html''])
           | None \<Rightarrow>
               (case PutBucketPolicy s3Client bucketName (bucketPolicy bucketName) of
                  Some e \<Rightarrow>
                    (Some (Errorf ''failed to apply S3 bucket policy'' (AwsError e)),
                     [S3_PutObject bucketName ''index.html'' content ''text/html'',
                      S3_PutBucketWebsite bucketName ''index.html'',
                      S3_PutBucketPolicy bucketName (bucketPolicy bucketName)])
                | None \<Rightarrow>
                    (None,
                     [S3_PutObject bucketName ''index.html'' content ''text/html'',
                      S3_PutBucketWebsite bucketName ''index.html'',
                      S3_PutBucketPolicy bucketName (bucketPolicy bucketName)]))))"

definition s3Endpoint :: "string \<Rightarrow> string \<Rightarrow> string" where
  "s3Endpoint bucketName region = bucketName @ ''.s3-website.'' @ region @ ''.amazonaws.com''"

definition reconcileS3Bucket :: "Reconciler \<Rightarrow> ParkedDomain \<Rightarrow> string result \<times> call list" where
  "reconcileS3Bucket r pd =
     (let bucketName = DomainName (Spec pd);
          region = defaultRegion pd
      in case GetClient r region of
           Inl e \<Rightarrow> (Err e, [S3_GetClient region])
         | Inr s3Client \<Rightarrow>
             (case ensureBucket s3Client bucketName region of
                (Some e, tr1) \<Rightarrow> (Err e, S3_GetClient region # tr1)
              | (None, tr1) \<Rightarrow>
                  (case finalContent r pd of
                     (Inl e, tr2) \<Rightarrow> (Err e, S3_GetClient region # tr1 @ tr2)
                   | (Inr content, tr2) \<Rightarrow>
                       (case configureBucket s3Client bucketName content of
                          (Some e, tr3) \<Rightarrow> (Err e, S3_GetClient region # tr1 @ tr2 @ tr3)
                        | (None, tr3) \<Rightarrow>
                            (Ok (s3Endpoint bucketName region),
                             S3_GetClient region # tr1 @ tr2 @ tr3)))))"

text \<open>The body of the paginator loop of \<open>cleanupS3Bucket\<close> after a page has arrived: a
  non-empty page is deleted in one batch of its keys.\<close>

definition deletePage :: "s3_client \<Rightarrow> string \<Rightarrow> Object list \<Rightarrow> aws_error option \<times> call list" where
  "deletePage s3Client bucketName contents =
     (if contents \<noteq> []
      then (let objectsToDelete = map Key contents
            in (DeleteObjects s3Client bucketName objectsToDelete,
                [S3_DeleteObjects bucketName objectsToDelete]))
      else (None, []))"

text \<open>The loop: \<open>Some res\<close> when the function returns \<open>res\<close> from inside the loop,
  \<open>None\<close> when the loop runs to its end.\<close>

fun emptyBucket :: "s3_client \<Rightarrow> string \<Rightarrow> Object pages \<Rightarrow> unit result option \<times> call list" where
  "emptyBucket s3Client bucketName (PageError e) =
     (Some (if e = NoSuchBucket then Ok ()
            else Err (Errorf ''failed to list objects in S3 bucket for deletion'' (AwsError e))),
      [S3_ListObjectsV2 bucketName])"
| "emptyBucket s3Client bucketName (LastPage contents) =
     (case deletePage s3Client bucketName contents of
        (Some e, tr) \<Rightarrow>
          (Some (Err (Errorf ''failed to delete objects from S3 bucket'' (AwsError e))),
           S3_ListObjectsV2 bucketName # tr)
      | (None, tr) \<Rightarrow> (None, S3_ListObjectsV2 bucketName # tr))"
| "emptyBucket s3Client bucketName (NextPage contents rest) =
     (case deletePage s3Client bucketName contents of
        (Some e, tr) \<Rightarrow>
          (Some (Err (Errorf ''failed to delete objects from S3 bucket'' (AwsError e))),
           S3_ListObjectsV2 bucketName # tr)
      | (None, tr) \<Rightarrow>
          (case emptyBucket s3Client bucketName rest of
             (res, tr') \<Rightarrow> (res, S3_ListObjectsV2 bucketName # tr @ tr')))"

definition deleteBucket :: "s3_client \<Rightarrow> string \<Rightarrow> unit result \<times> call list" where
  "deleteBucket s3Client bucketName =
     (case DeleteBucket s3Client bucketName of
        Some e \<Rightarrow>
          (if e \<noteq> NoSuchBucket
           then (Err (Errorf ''failed to delete S3 bucket'' (AwsError e)),
                 [S3_DeleteBucket bucketName])
           else (Ok (), [S3_DeleteBucket bucketName]))
      | None \<Rightarrow> (Ok (), [S3_DeleteBucket bucketName]))"

definition cleanupS3Bucket :: "Reconciler \<Rightarrow> ParkedDomain \<Rightarrow> unit result \<times> call list" where
  "cleanupS3Bucket r pd =
     (let bucketName = DomainName (Spec pd);
          region = defaultRegion pd
      in case GetClient r region of
           Inl e \<Rightarrow> (Err e, [S3_GetClient region])
         | Inr s3Client \<Rightarrow>
             (case emptyBucket s3Client bucketName (ListObjectsV2 s3Client bucketName) of
                (Some res, tr) \<Rightarrow> (res, S3_GetClient region # tr)
              | (None, tr) \<Rightarrow>
                  (case deleteBucket s3Client bucketName of
                     (res, tr') \<Rightarrow> (res, S3_GetClient region # tr @ tr'))))"

subsection \<open>The earlier copy of the bucket teardown\<close>

text \<open>
  The repository holds a second copy of \<open>cleanupS3Bucket\<close>, on the single client
  \<open>r.S3Client\<close>: a failed listing is always an error, and the deletion of the bucket
  tolerates \<open>s3types.NotFound\<close>, not \<open>s3types.NoSuchBucket\<close>.
\<close>

fun emptyBucket_legacy :: "s3_client \<Rightarrow> string \<Rightarrow> Object pages \<Rightarrow> unit result option \<times> call list" where
  "emptyBucket_legacy s3Client bucketName (PageError e) =
     (Some (Err (Errorf ''failed to list objects in S3 bucket for deletion'' (AwsError e))),
      [S3_ListObjectsV2 bucketName])"
| "emptyBucket_legacy s3Client bucketName (LastPage contents) =
     (case deletePage s3Client bucketName contents of
        (Some e, tr) \<Rightarrow>
          (Some (Err (Errorf ''failed to delete objects from S3 bucket'' (AwsError e))),
           S3_ListObjectsV2 bucketName # tr)
      | (None, tr) \<Rightarrow> (None, S3_ListObjectsV2 bucketName # tr))"
| "emptyBucket_legacy s3Client bucketName (NextPage contents rest) =
     (case deletePage s3Client bucketName contents of
        (Some e, tr) \<Rightarrow>
          (Some (Err (Errorf ''failed to delete objects from S3 bucket'' (AwsError e))),
           S3_ListObjectsV2 bucketName # tr)
      | (None, tr) \<Rightarrow>
          (case emptyBucket_legacy s3Client bucketName rest of
             (res, tr') \<Rightarrow> (res, S3_ListObjectsV2 bucketName # tr @ tr')))"

definition cleanupS3Bucket_legacy :: "Reconciler \<Rightarrow> ParkedDomain \<Rightarrow> unit result \<times> call list" where
  "cleanupS3Bucket_legacy r pd =
     (let bucketName = DomainName (Spec pd)
      in case emptyBucket_legacy (S3Client r) bucketName (ListObjectsV2 (S3Client r) bucketName) of
           (Some res, tr) \<Rightarrow> (res, tr)
         | (None, tr) \<Rightarrow>
             (case DeleteBucket (S3Client r) bucketName of
                Some e \<Rightarrow>
                  (if e \<noteq> NotFound
                   then (Err (Errorf ''failed to delete S3 bucket'' (AwsError e)),
                         tr @ [S3_DeleteBucket bucketName])
                   else (Ok (), tr @ [S3_DeleteBucket bucketName]))
              | None \<Rightarrow> (Ok (), tr @ [S3_DeleteBucket bucketName])))"

section \<open>Reconciliation engine\<close>

definition setStatusTag :: "ParkedDomain \<Rightarrow> string \<Rightarrow> ParkedDomain" where
  "setStatusTag pd tag = pd\<lparr>Status := (Status pd)\<lparr>StatusTag := tag\<rparr>\<rparr>"

text \<open>
  Each part of \<open>Reconcile\<close> gives what the invocation returns, the requests it sent and
  the intent object as the invocation leaves it in memory.

  The delete path: the branch of the finalizer gate for an object that is being deleted.
\<close>

definition Reconcile_delete :: "Reconciler \<Rightarrow> ParkedDomain \<Rightarrow> unit result \<times> call list \<times> ParkedDomain" where
  "Reconcile_delete r pd =
     (if ContainsFinalizer pd finalizerName
      then
        (case cleanupS3Bucket r pd of
           (Err e, tr1) \<Rightarrow> (Err e, tr1, pd)
         | (Panic, tr1) \<Rightarrow> (Panic, tr1, pd)
         | (Ok u, tr1) \<Rightarrow>
             (case cleanupRoute53Zone r pd of
                (Err e, tr2) \<Rightarrow> (Err e, tr1 @ tr2, pd)
              | (Panic, tr2) \<Rightarrow> (Panic, tr1 @ tr2, pd)
              | (Ok u, tr2) \<Rightarrow>
                  (let pd' = RemoveFinalizer pd finalizerName
                   in case Update (Client r) pd' of
                        Some e \<Rightarrow> (Err (ApiError e), tr1 @ tr2 @ [K8s_Update pd'], pd')
                      | None \<Rightarrow> (Ok (), tr1 @ tr2 @ [K8s_Update pd'], pd'))))
      else (Ok (), [], pd))"

text \<open>Steps 3 and 4: the three stages and the status update.\<close>

definition Reconcile_resources :: "Reconciler \<Rightarrow> ParkedDomain \<Rightarrow> unit result \<times> call list \<times> ParkedDomain" where
  "Reconcile_resources r pd =
     (case reconcileRoute53Zone r pd of
        (Err e, tr1) \<Rightarrow>
          (let pd' = setStatusTag pd ''Error: Route53 Zone''
           in (Err e, tr1 @ [K8s_StatusUpdate pd'], pd'))
      | (Panic, tr1) \<Rightarrow> (Panic, tr1, pd)
      | (Ok (zoneID, nameservers), tr1) \<Rightarrow>
          (case reconcileS3Bucket r pd of
             (Err e, tr2) \<Rightarrow>
               (let pd' = setStatusTag pd ''Error: S3 Bucket''
                in (Err e, tr1 @ tr2 @ [K8s_StatusUpdate pd'], pd'))
           | (Panic, tr2) \<Rightarrow> (Panic, tr1 @ tr2, pd)
           | (Ok endpoint, tr2) \<Rightarrow>
               (case reconcileRoute53ARecord r pd zoneID endpoint of
                  (Err e, tr3) \<Rightarrow>
                    (let pd' = setStatusTag pd ''Error: Route53 A Record''
                     in (Err e, tr1 @ tr2 @ tr3 @ [K8s_StatusUpdate pd'], pd'))
                | (Panic, tr3) \<Rightarrow> (Panic, tr1 @ tr2 @ tr3, pd)
                | (Ok u, tr3) \<Rightarrow>
                    (let pd' = pd\<lparr>Status := \<lparr>StatusTag = ''Provisioned'', ZoneID = zoneID,
                                               NameServers = nameservers\<rparr>\<rparr>
                     in case StatusUpdate (Client r) pd' of
                          Some e \<Rightarrow>
                            (Err (ApiError e), tr1 @ tr2 @ tr3 @ [K8s_StatusUpdate pd'], pd')
                        | None \<Rightarrow> (Ok (), tr1 @ tr2 @ tr3 @ [K8s_StatusUpdate pd'], pd')))))"

text \<open>\<open>Reconcile\<close>; the object is \<open>None\<close> when the fetch did not deliver one.\<close>

definition Reconcile ::
  "Reconciler \<Rightarrow> string \<times> string \<Rightarrow> unit result \<times> call list \<times> ParkedDomain option" where
  "Reconcile r req =
     (case Get (Client r) req of
        Inl e \<Rightarrow> ((if e = K8sNotFound then Ok () else Err (ApiError e)), [K8s_Get req], None)
      | Inr pd \<Rightarrow>
          (if IsZero (DeletionTimestamp pd)
           then
             (if \<not> ContainsFinalizer pd finalizerName
              then
                (let pd' = AddFinalizer pd finalizerName
                 in case Update (Client r) pd' of
                      Some e \<Rightarrow> (Err (ApiError e), [K8s_Get req, K8s_Update pd'], Some pd')
                    | None \<Rightarrow>
                        (case Reconcile_resources r pd' of
                           (res, tr, pd'') \<Rightarrow>
                             (res, K8s_Get req # K8s_Update pd' # tr, Some pd'')))
              else
                (case Reconcile_resources r pd of
                   (res, tr, pd'') \<Rightarrow> (res, K8s_Get req # tr, Some pd'')))
           else
             (case Reconcile_delete r pd of
                (res, tr, pd') \<Rightarrow> (res, K8s_Get req # tr, Some pd'))))"

section \<open>Observations on an invocation\<close>

text \<open>The pages of a listing that arrive, and the error that ends it, if one does.\<close>

fun pageContents :: "'a pages \<Rightarrow> 'a list list" where
  "pageContents (LastPage xs) = [xs]"
| "pageContents (NextPage xs rest) = xs # pageContents rest"
| "pageContents (PageError e) = []"

fun listingError :: "'a pages \<Rightarrow> aws_error option" where
  "listingError (LastPage xs) = None"
| "listingError (NextPage xs rest) = listingError rest"
| "listingError (PageError e) = Some e"

text \<open>The requests of the bucket teardown for one page that arrived.\<close>

definition pageCalls :: "string \<Rightarrow> Object list \<Rightarrow> call list" where
  "pageCalls bucketName contents =
     S3_ListObjectsV2 bucketName #
       (if contents \<noteq> [] then [S3_DeleteObjects bucketName (map Key contents)] else [])"

text \<open>Requests to the storage host, to the DNS provider, and the object a request to the
  intent store writes.\<close>

fun s3_call :: "call \<Rightarrow> bool" where
  "s3_call (S3_GetClient _) = True"
| "s3_call (S3_HeadBucket _) = True"
| "s3_call (S3_CreateBucket _ _) = True"
| "s3_call (S3_PutObject _ _ _ _) = True"
| "s3_call (S3_PutBucketWebsite _ _) = True"
| "s3_call (S3_PutBucketPolicy _ _) = True"
| "s3_call (S3_ListObjectsV2 _) = True"
| "s3_call (S3_DeleteObjects _ _) = True"
| "s3_call (S3_DeleteBucket _) = True"
| "s3_call _ = False"

fun r53_call :: "call \<Rightarrow> bool" where
  "r53_call (R53_ListHostedZonesByName _) = True"
| "r53_call (R53_GetHostedZone _) = True"
| "r53_call (R53_CreateHostedZone _ _) = True"
| "r53_call (R53_ChangeResourceRecordSets _ _) = True"
| "r53_call (R53_ListResourceRecordSets _) = True"
| "r53_call (R53_DeleteHostedZone _) = True"
| "r53_call _ = False"

fun written :: "call \<Rightarrow> ParkedDomain option" where
  "written (K8s_Update pd) = Some pd"
| "written (K8s_StatusUpdate pd) = Some pd"
| "written _ = None"

fun create_bucket_call :: "call \<Rightarrow> bool" where
  "create_bucket_call (S3_CreateBucket _ _) = True"
| "create_bucket_call _ = False"

section \<open>The mock clients of the controller test\<close>

definition MockS3Client :: s3_client where
  "MockS3Client =
     \<lparr>HeadBucket = (\<lambda>b. Some NotFound),
      CreateBucket = (\<lambda>b l. None),
      PutObject = (\<lambda>b k body ct. None),
      PutBucketWebsite = (\<lambda>b s. None),
      PutBucketPolicy = (\<lambda>b p. None),
      ListObjectsV2 = (\<lambda>b. LastPage []),
      DeleteObjects = (\<lambda>b ks. None),
      DeleteBucket = (\<lambda>b. None)\<rparr>"

text \<open>The test's mock answers the four requests it declares; the two lookups by name it
  leaves out find no zone here.\<close>

definition MockR53Client :: r53_client where
  "MockR53Client =
     \<lparr>ListHostedZonesByName = (\<lambda>d. Inr []),
      GetHostedZone = (\<lambda>z. Inl NoSuchHostedZone),
      CreateHostedZone =
        (\<lambda>d c. Inr \<lparr>Created_HostedZone =
                        \<lparr>HostedZone_Id = ''/hostedzone/MOCKZONEID123'', HostedZone_Name = []\<rparr>,
                      Created_DelegationSet = Some [''ns-1.awsdns.com'', ''ns-2.awsdns.com'']\<rparr>),
      ChangeResourceRecordSets = (\<lambda>z b. None),
      ListResourceRecordSets =
        (\<lambda>z. LastPage [\<lparr>RecordName = [], RecordType = ''NS'', RecordAliasTarget = None\<rparr>,
                        \<lparr>RecordName = [], RecordType = ''SOA'', RecordAliasTarget = None\<rparr>]),
      DeleteHostedZone = (\<lambda>z. None)\<rparr>"

text \<open>The intent of the test and a store that holds it, with a template ConfigMap.\<close>

definition testDomain :: ParkedDomain where
  "testDomain =
     \<lparr>Name = ''test-domain'', Namespace = ''default'', DeletionTimestamp = None,
      Finalizers = [],
      Spec = \<lparr>DomainName = ''test.example.com'', Region = [], TemplateName = []\<rparr>,
      Status = \<lparr>StatusTag = [], ZoneID = [], NameServers = []\<rparr>\<rparr>"

definition testKey :: "string \<times> string" where
  "testKey = (''test-domain'', ''default'')"

definition testStore :: "ParkedDomain \<Rightarrow> k8s_client" where
  "testStore pd =
     \<lparr>Get = (\<lambda>key. if key = testKey then Inr pd else Inl K8sNotFound),
      GetConfigMap = (\<lambda>key. Inr [''default.html'' \<mapsto> ''<h1>{{DOMAIN_NAME}}</h1>'']),
      Update = (\<lambda>pd. None),
      StatusUpdate = (\<lambda>pd. None)\<rparr>"

definition testEnv :: "string \<Rightarrow> string" where
  "testEnv var = (if var = ''TEMPLATE_CONFIGMAP_NAME'' then ''parking-templates'' else [])"

definition testReconciler :: "ParkedDomain \<Rightarrow> s3_client \<Rightarrow> r53_client \<Rightarrow> Reconciler" where
  "testReconciler pd s3 r53 =
     \<lparr>Client = testStore pd, S3Client = s3, GetClient = (\<lambda>region. Inr s3), R53Client = r53,
      Getenv = testEnv, Now = 1700000000\<rparr>"

section \<open>Example clients\<close>

text \<open>A provider that already holds the zone of the test intent.\<close>

definition adoptR53Client :: r53_client where
  "adoptR53Client =
     MockR53Client
       \<lparr>ListHostedZonesByName :=
          (\<lambda>d. Inr [\<lparr>HostedZone_Id = ''/hostedzone/Z0EXISTING'',
                      HostedZone_Name = ''test.example.com.''\<rparr>]),
        GetHostedZone :=
          (\<lambda>z. Inr \<lparr>Got_DelegationSet = Some [''ns-7.awsdns.org'', ''ns-8.awsdns.net'']\<rparr>)\<rparr>"

text \<open>A provider whose zone of the test intent's name is a private hosted zone: the lookup
  by name lists it, and \<open>GetHostedZone\<close> answers for it without a delegation set.\<close>

definition privateR53Client :: r53_client where
  "privateR53Client =
     MockR53Client
       \<lparr>ListHostedZonesByName :=
          (\<lambda>d. Inr [\<lparr>HostedZone_Id = ''/hostedzone/Z0PRIVATE'',
                      HostedZone_Name = ''test.example.com.''\<rparr>]),
        GetHostedZone := (\<lambda>z. Inr \<lparr>Got_DelegationSet = None\<rparr>)\<rparr>"

text \<open>A provider that answers the creation with the name conflict: the lookup by name
  found nothing, and the zone \<open>Z0EXISTING\<close> is there when the creation arrives.\<close>

definition conflictR53Client :: r53_client where
  "conflictR53Client =
     MockR53Client
       \<lparr>GetHostedZone :=
          (\<lambda>z. Inr \<lparr>Got_DelegationSet = Some [''ns-7.awsdns.org'', ''ns-8.awsdns.net'']\<rparr>),
        CreateHostedZone := (\<lambda>d c. Inl HostedZoneAlreadyExists)\<rparr>"

text \<open>The test intent once provisioned, and the same intent marked for deletion.\<close>

definition provisionedDomain :: ParkedDomain where
  "provisionedDomain =
     testDomain
       \<lparr>Finalizers := [finalizerName],
        Status := \<lparr>StatusTag = ''Provisioned'', ZoneID = ''MOCKZONEID123'',
                   NameServers = [''ns-1.awsdns.com'', ''ns-2.awsdns.com'']\<rparr>\<rparr>"

definition deletingDomain :: ParkedDomain where
  "deletingDomain = provisionedDomain\<lparr>DeletionTimestamp := Some (UnixTime 1700000000)\<rparr>"

text \<open>A zone that holds the alias record beside its NS and SOA records; the same zone
  vanishing between the listing and the deletion of the record; a zone that is gone.\<close>

definition aliasRecord :: ResourceRecordSet where
  "aliasRecord =
     \<lparr>RecordName = ''test.example.com.'', RecordType = ''A'',
      RecordAliasTarget =
        Some \<lparr>HostedZoneId = ''Z21DNDUVLTQW6Q'',
              DNSName = ''test.example.com.s3-website.eu-central-1.amazonaws.com'',
              EvaluateTargetHealth = False\<rparr>\<rparr>"

definition populatedR53Client :: r53_client where
  "populatedR53Client =
     MockR53Client
       \<lparr>ListResourceRecordSets :=
          (\<lambda>z. LastPage [\<lparr>RecordName = [], RecordType = ''NS'', RecordAliasTarget = None\<rparr>,
                          \<lparr>RecordName = [], RecordType = ''SOA'', RecordAliasTarget = None\<rparr>,
                          aliasRecord])\<rparr>"

definition vanishingR53Client :: r53_client where
  "vanishingR53Client =
     populatedR53Client\<lparr>ChangeResourceRecordSets := (\<lambda>z b. Some NoSuchHostedZone)\<rparr>"

definition absentR53Client :: r53_client where
  "absentR53Client =
     MockR53Client
       \<lparr>ListResourceRecordSets := (\<lambda>z. PageError NoSuchHostedZone),
        DeleteHostedZone := (\<lambda>z. Some NoSuchHostedZone)\<rparr>"

text \<open>A bucket that holds the index object on a first page; a bucket that is gone.\<close>

definition populatedS3Client :: s3_client where
  "populatedS3Client =
     MockS3Client
       \<lparr>HeadBucket := (\<lambda>b. None),
        ListObjectsV2 := (\<lambda>b. NextPage [\<lparr>Key = ''index.html''\<rparr>] (LastPage []))\<rparr>"

definition absentS3Client :: s3_client where
  "absentS3Client =
     MockS3Client
       \<lparr>ListObjectsV2 := (\<lambda>b. PageError NoSuchBucket),
        DeleteBucket := (\<lambda>b. Some NoSuchBucket)\<rparr>"

text \<open>The test intent with the token registered; the same with a region outside the
  alias-zone table; a storage host that refuses the bucket policy; a DNS provider that
  fails the lookup by name.\<close>

definition registeredDomain :: ParkedDomain where
  "registeredDomain = testDomain\<lparr>Finalizers := [finalizerName]\<rparr>"

definition unsupportedDomain :: ParkedDomain where
  "unsupportedDomain = registeredDomain\<lparr>Spec := (Spec registeredDomain)\<lparr>Region := ''ap-south-1''\<rparr>\<rparr>"

definition deniedS3Client :: s3_client where
  "deniedS3Client =
     MockS3Client\<lparr>PutBucketPolicy := (\<lambda>b p. Some (OtherAwsError ''AccessDenied''))\<rparr>"

definition throttledR53Client :: r53_client where
  "throttledR53Client =
     MockR53Client\<lparr>ListHostedZonesByName := (\<lambda>d. Inl (OtherAwsError ''Throttling''))\<rparr>"

text \<open>A storage host on which the bucket of the test intent exists and every request is
  accepted.\<close>

definition existingS3Client :: s3_client where
  "existingS3Client = MockS3Client\<lparr>HeadBucket := (\<lambda>b. None)\<rparr>"

section \<open>Properties\<close>

subsection \<open>Strings and the region table\<close>

lemma Sprintf_d_now: "Sprintf_d 1700000000 = ''1700000000''"
  by (simp add: Sprintf_d_def digits.simps)

lemma stripHostedZone_prefix: "stripHostedZone (''/hostedzone/'' @ rest) = rest"
  by (simp add: stripHostedZone_def)

lemma table_nonempty: "map_of s3HostedZoneIDs region = Some z \<Longrightarrow> z \<noteq> []"
  by (auto simp: s3HostedZoneIDs_def split: if_splits)

subsection \<open>Record driver\<close>

text \<open>
  Claim C7. With the region of the intent, or \<open>eu-central-1\<close> when the intent names none:
  for a region that the alias-zone table does not hold, \<open>reconcileRoute53ARecord\<close> returns
  the configuration error "unsupported S3 website region" and sends no request; for a region
  of the table it sends exactly one change request, whose single change is an upsert of the
  A alias record named as the domain, with the given bucket website endpoint as target and
  the table entry of the region as alias zone id. The entry of \<open>eu-central-1\<close> is
  \<open>Z21DNDUVLTQW6Q\<close>.
\<close>

theorem reconcileRoute53ARecord_alias:
  "(let region = (if Region (Spec pd) = [] then ''eu-central-1'' else Region (Spec pd))
    in (map_of s3HostedZoneIDs region = None \<longrightarrow>
          reconcileRoute53ARecord r pd zoneID endpoint =
            (Err (ErrorString (''unsupported S3 website region for alias record: '' @ region)), []))
     \<and> (\<forall>z. map_of s3HostedZoneIDs region = Some z \<longrightarrow>
          snd (reconcileRoute53ARecord r pd zoneID endpoint) =
            [R53_ChangeResourceRecordSets zoneID
               \<lparr>Comment = Some ''Managed by ParkedDomain Operator'',
                Changes =
                  [\<lparr>Action = ChangeActionUpsert,
                    ChangeRecordSet =
                      \<lparr>RecordName = DomainName (Spec pd), RecordType = ''A'',
                       RecordAliasTarget =
                         Some \<lparr>HostedZoneId = z, DNSName = endpoint,
                               EvaluateTargetHealth = False\<rparr>\<rparr>\<rparr>]\<rparr>]))
   \<and> map_of s3HostedZoneIDs ''eu-central-1'' = Some ''Z21DNDUVLTQW6Q''"
proof -
  have tab: "map_of s3HostedZoneIDs ''eu-central-1'' = Some ''Z21DNDUVLTQW6Q''"
    by (simp add: s3HostedZoneIDs_def)
  have absent: "map_of s3HostedZoneIDs (defaultRegion pd) = None \<Longrightarrow>
      reconcileRoute53ARecord r pd zoneID endpoint =
        (Err (ErrorString (''unsupported S3 website region for alias record: '' @ defaultRegion pd)), [])"
    by (simp add: reconcileRoute53ARecord_def getS3WebsiteHostedZoneID_def)
  have present: "map_of s3HostedZoneIDs (defaultRegion pd) = Some z \<Longrightarrow>
      snd (reconcileRoute53ARecord r pd zoneID endpoint) =
        [R53_ChangeResourceRecordSets zoneID (aliasChangeBatch pd z endpoint)]" for z
    using table_nonempty [of "defaultRegion pd" z]
    by (simp add: reconcileRoute53ARecord_def getS3WebsiteHostedZoneID_def Let_def
             split: option.splits)
  show ?thesis
    using tab absent present
    by (simp add: defaultRegion_def aliasChangeBatch_def Let_def)
qed

theorem reconcileRoute53ARecord_alias_witness:
  "reconcileRoute53ARecord (testReconciler testDomain MockS3Client MockR53Client)
       (testDomain\<lparr>Spec := (Spec testDomain)\<lparr>Region := ''ap-south-1''\<rparr>\<rparr>) ''MOCKZONEID123''
       ''test.example.com.s3-website.ap-south-1.amazonaws.com'' =
     (Err (ErrorString ''unsupported S3 website region for alias record: ap-south-1''), [])
   \<and> snd (reconcileRoute53ARecord (testReconciler testDomain MockS3Client MockR53Client)
             testDomain ''MOCKZONEID123'' ''test.example.com.s3-website.eu-central-1.amazonaws.com'') =
       [R53_ChangeResourceRecordSets ''MOCKZONEID123''
          \<lparr>Comment = Some ''Managed by ParkedDomain Operator'',
           Changes =
             [\<lparr>Action = ChangeActionUpsert,
               ChangeRecordSet =
                 \<lparr>RecordName = ''test.example.com'', RecordType = ''A'',
                  RecordAliasTarget =
                    Some \<lparr>HostedZoneId = ''Z21DNDUVLTQW6Q'',
                          DNSName = ''test.example.com.s3-website.eu-central-1.amazonaws.com'',
                          EvaluateTargetHealth = False\<rparr>\<rparr>\<rparr>]\<rparr>]"
  using reconcileRoute53ARecord_alias
          [of "testDomain\<lparr>Spec := (Spec testDomain)\<lparr>Region := ''ap-south-1''\<rparr>\<rparr>"
              "testReconciler testDomain MockS3Client MockR53Client" "''MOCKZONEID123''"
              "''test.example.com.s3-website.ap-south-1.amazonaws.com''"]
        reconcileRoute53ARecord_alias
          [of testDomain "testReconciler testDomain MockS3Client MockR53Client" "''MOCKZONEID123''"
              "''test.example.com.s3-website.eu-central-1.amazonaws.com''"]
  by (simp add: testDomain_def s3HostedZoneIDs_def Let_def)

subsection \<open>Zone driver: adoption\<close>

text \<open>
  What the adoption path does do. When the lookup by name answers with a hosted zone named
  exactly \<open>domainName + "."\<close> in first place, \<open>reconcileRoute53Zone\<close> sends the lookup by
  name and one \<open>GetHostedZone\<close> for that zone and nothing else, so no mutating request;
  when that second lookup answers with the delegation set of the zone, the function returns
  the identifier of the zone with the first \<open>/hostedzone/\<close> removed, which for an
  identifier that starts with it is the bare identifier, and the nameservers of the
  delegation set.
\<close>

lemma reconcileRoute53Zone_adopts:
  assumes listed: "ListHostedZonesByName (R53Client r) (DomainName (Spec pd)) = Inr (z # zs)"
      and exact: "HostedZone_Name z = DomainName (Spec pd) @ ''.''"
  shows "snd (reconcileRoute53Zone r pd) =
           [R53_ListHostedZonesByName (DomainName (Spec pd)), R53_GetHostedZone (HostedZone_Id z)]
       \<and> (\<forall>c \<in> set (snd (reconcileRoute53Zone r pd)). \<not> mutating c)
       \<and> (\<forall>out ns. GetHostedZone (R53Client r) (HostedZone_Id z) = Inr out
                    \<and> Got_DelegationSet out = Some ns \<longrightarrow>
            fst (reconcileRoute53Zone r pd) =
              Ok (strings_Replace (HostedZone_Id z) ''/hostedzone/'' [] 1, ns))
       \<and> (\<forall>bare. HostedZone_Id z = ''/hostedzone/'' @ bare \<longrightarrow>
            strings_Replace (HostedZone_Id z) ''/hostedzone/'' [] 1 = bare)"
proof -
  have tr: "snd (reconcileRoute53Zone r pd) =
      [R53_ListHostedZonesByName (DomainName (Spec pd)), R53_GetHostedZone (HostedZone_Id z)]"
    using listed exact
    by (simp add: reconcileRoute53Zone_def Let_def split: sum.splits option.splits)
  have ro: "\<forall>c \<in> set (snd (reconcileRoute53Zone r pd)). \<not> mutating c"
    by (simp add: tr)
  have res: "GetHostedZone (R53Client r) (HostedZone_Id z) = Inr out \<Longrightarrow>
      Got_DelegationSet out = Some ns \<Longrightarrow>
      fst (reconcileRoute53Zone r pd) =
        Ok (strings_Replace (HostedZone_Id z) ''/hostedzone/'' [] 1, ns)" for out ns
    using listed exact
    by (simp add: reconcileRoute53Zone_def stripHostedZone_def Let_def)
  have strip: "HostedZone_Id z = ''/hostedzone/'' @ bare \<Longrightarrow>
      strings_Replace (HostedZone_Id z) ''/hostedzone/'' [] 1 = bare" for bare
    using stripHostedZone_prefix [of bare] by (simp add: stripHostedZone_def)
  show ?thesis using tr ro res strip by blast
qed

lemma reconcileRoute53Zone_adopts_example:
  "reconcileRoute53Zone (testReconciler testDomain MockS3Client adoptR53Client) testDomain =
     (Ok (''Z0EXISTING'', [''ns-7.awsdns.org'', ''ns-8.awsdns.net'']),
      [R53_ListHostedZonesByName ''test.example.com'', R53_GetHostedZone ''/hostedzone/Z0EXISTING''])"
  using reconcileRoute53Zone_adopts
          [of "testReconciler testDomain MockS3Client adoptR53Client" testDomain
              "\<lparr>HostedZone_Id = ''/hostedzone/Z0EXISTING'', HostedZone_Name = ''test.example.com.''\<rparr>" "[]"]
  by (simp add: testReconciler_def testDomain_def adoptR53Client_def MockR53Client_def prod_eq_iff)

text \<open>When the second lookup fails, its error is returned, wrapped.\<close>

lemma reconcileRoute53Zone_adopts_lookup_failed:
  assumes listed: "ListHostedZonesByName (R53Client r) (DomainName (Spec pd)) = Inr (z # zs)"
      and exact: "HostedZone_Name z = DomainName (Spec pd) @ ''.''"
      and failed: "GetHostedZone (R53Client r) (HostedZone_Id z) = Inl e"
  shows "fst (reconcileRoute53Zone r pd) =
           Err (Errorf ''failed to get details for existing hosted zone'' (AwsError e))"
  using listed exact failed by (simp add: reconcileRoute53Zone_def Let_def)

text \<open>
  Claim C4. The claim asks that, whenever the provider holds a hosted zone named exactly
  \<open>domainName + "."\<close>, the identifier and the nameservers of that zone are returned and no
  mutating request is sent. At the test intent, with a provider whose zone of that name is a
  private hosted zone, \<open>reconcileRoute53Zone\<close> sends the lookup by name and
  \<open>GetHostedZone\<close>, both read-only, and then dereferences the delegation set that the
  answer does not carry: it panics, and returns neither the identifier \<open>Z0PRIVATE\<close> nor a
  list of nameservers.
\<close>

theorem reconcileRoute53Zone_private_zone:
  "ListHostedZonesByName (R53Client (testReconciler testDomain MockS3Client privateR53Client))
       (DomainName (Spec testDomain)) =
     Inr [\<lparr>HostedZone_Id = ''/hostedzone/Z0PRIVATE'',
           HostedZone_Name = DomainName (Spec testDomain) @ ''.''\<rparr>]
   \<and> reconcileRoute53Zone (testReconciler testDomain MockS3Client privateR53Client) testDomain =
     (Panic,
      [R53_ListHostedZonesByName ''test.example.com'',
       R53_GetHostedZone ''/hostedzone/Z0PRIVATE''])"
  by (simp add: reconcileRoute53Zone_def stripHostedZone_def testReconciler_def testDomain_def
        privateR53Client_def MockR53Client_def Let_def)

subsection \<open>Zone driver: the name conflict on creation\<close>

text \<open>
  Claim C1. The claim asks that a creation refused with "zone already exists" ends in the
  adoption lookup and in the identifier and nameservers of the existing zone. At the test
  intent, with a provider that refuses the creation so, the variant of
  \<open>reconcileRoute53Zone\<close> that handles the conflict returns the fixed identifier
  \<open>EXISTING_ZONE_ID_PLACEHOLDER\<close> with no nameserver after the creation request alone, and the
  variant that lists first returns the creation error; neither sends a lookup after the
  refusal, and neither returns \<open>Z0EXISTING\<close> and its nameservers.
\<close>

theorem reconcileRoute53Zone_conflict:
  "reconcileRoute53Zone_placeholder (testReconciler testDomain MockS3Client conflictR53Client)
       testDomain =
     (Ok (''EXISTING_ZONE_ID_PLACEHOLDER'', []),
      [R53_CreateHostedZone ''test.example.com'' ''parkeddomain-operator-test-domain-1700000000''])
   \<and> reconcileRoute53Zone (testReconciler testDomain MockS3Client conflictR53Client) testDomain =
     (Err (Errorf ''failed to create Route 53 Hosted Zone'' (AwsError HostedZoneAlreadyExists)),
      [R53_ListHostedZonesByName ''test.example.com'',
       R53_CreateHostedZone ''test.example.com'' ''parkeddomain-operator-test-domain-1700000000''])"
  by (simp add: reconcileRoute53Zone_placeholder_def reconcileRoute53Zone_def callerReference_def
        Sprintf_d_now testReconciler_def testDomain_def conflictR53Client_def MockR53Client_def
        Let_def)

subsection \<open>Zone driver: teardown\<close>

lemma deleteChanges_concat: "concat (map deleteChanges xss) = deleteChanges (concat xss)"
  by (induction xss) (simp_all add: deleteChanges_def)

lemma listRecordSets_complete:
  "listingError pages = None \<Longrightarrow>
   listRecordSets zoneID pages changes =
     (Inr (changes @ deleteChanges (concat (pageContents pages))),
      replicate (length (pageContents pages)) (R53_ListResourceRecordSets zoneID))"
proof (induction pages arbitrary: changes)
  case (LastPage xs)
  then show ?case by simp
next
  case (NextPage xs rest)
  then show ?case by (simp add: deleteChanges_def)
next
  case (PageError e)
  then show ?case by simp
qed

lemma listRecordSets_failed:
  "listingError pages = Some e \<Longrightarrow> fst (listRecordSets zoneID pages changes) = Inl e"
  by (induction pages arbitrary: changes) (simp_all add: case_prod_unfold)

lemma listRecordSets_calls:
  "c \<in> set (snd (listRecordSets zoneID pages changes)) \<Longrightarrow> c = R53_ListResourceRecordSets zoneID"
  by (induction pages arbitrary: changes) (auto simp: case_prod_unfold)

lemma deleteZone_calls: "snd (deleteZone r zoneID) = [R53_DeleteHostedZone zoneID]"
  by (simp add: deleteZone_def split: option.splits)

lemma deleteZone_result:
  "fst (deleteZone r zoneID) =
     (case DeleteHostedZone (R53Client r) zoneID of
        None \<Rightarrow> Ok ()
      | Some e \<Rightarrow> if e = NoSuchHostedZone then Ok ()
                  else Err (Errorf ''failed to delete Hosted Zone'' (AwsError e)))"
  by (simp add: deleteZone_def split: option.splits)

lemma cleanupRoute53Zone_calls:
  "c \<in> set (snd (cleanupRoute53Zone r pd)) \<Longrightarrow> r53_call c"
  by (auto simp: cleanupRoute53Zone_def Let_def deleteZone_def case_prod_unfold
           split: sum.splits option.splits if_splits
           dest: listRecordSets_calls)

lemma cleanupRoute53Zone_no_panic: "fst (cleanupRoute53Zone r pd) \<noteq> Panic"
  by (auto simp: cleanupRoute53Zone_def Let_def deleteZone_def case_prod_unfold
           split: sum.splits option.splits if_splits)

text \<open>
  Claim C3, as amended. With an empty zone identifier \<open>cleanupRoute53Zone\<close> returns success
  and sends no request. With a non-empty identifier whose record listing runs to its last
  page, it sends one listing request for each page, then, when a listed record has a type
  other than NS and SOA, one change request that deletes exactly those records, in the order
  listed, and then the request that deletes the zone. An error of the change request, "zone
  not found" included, is returned as a failure and the zone deletion is not sent. On the
  zone deletion, success and "zone not found" both give success, and any other error is
  returned.
\<close>

theorem cleanupRoute53Zone_teardown:
  "(ZoneID (Status pd) = [] \<longrightarrow> cleanupRoute53Zone r pd = (Ok (), []))
 \<and> (ZoneID (Status pd) \<noteq> []
      \<and> listingError (ListResourceRecordSets (R53Client r) (ZoneID (Status pd))) = None \<longrightarrow>
     (let zoneID = ZoneID (Status pd);
          listed = pageContents (ListResourceRecordSets (R53Client r) zoneID);
          changes =
            map (\<lambda>record. \<lparr>Action = ChangeActionDelete, ChangeRecordSet = record\<rparr>)
              (filter (\<lambda>record. RecordType record \<noteq> ''NS'' \<and> RecordType record \<noteq> ''SOA'')
                 (concat listed));
          batch = \<lparr>Comment = None, Changes = changes\<rparr>;
          listing = replicate (length listed) (R53_ListResourceRecordSets zoneID);
          deletion = (if changes = [] then [] else [R53_ChangeResourceRecordSets zoneID batch])
      in (\<forall>e. changes \<noteq> [] \<and> ChangeResourceRecordSets (R53Client r) zoneID batch = Some e \<longrightarrow>
            cleanupRoute53Zone r pd =
              (Err (Errorf ''failed to delete records from Hosted Zone'' (AwsError e)),
               listing @ deletion))
       \<and> (changes = [] \<or> ChangeResourceRecordSets (R53Client r) zoneID batch = None \<longrightarrow>
            snd (cleanupRoute53Zone r pd) = listing @ deletion @ [R53_DeleteHostedZone zoneID]
          \<and> (DeleteHostedZone (R53Client r) zoneID = None
               \<or> DeleteHostedZone (R53Client r) zoneID = Some NoSuchHostedZone \<longrightarrow>
             fst (cleanupRoute53Zone r pd) = Ok ())
          \<and> (\<forall>e. DeleteHostedZone (R53Client r) zoneID = Some e \<and> e \<noteq> NoSuchHostedZone \<longrightarrow>
             fst (cleanupRoute53Zone r pd) =
               Err (Errorf ''failed to delete Hosted Zone'' (AwsError e))))))"
proof -
  have empty: "ZoneID (Status pd) = [] \<Longrightarrow> cleanupRoute53Zone r pd = (Ok (), [])"
    by (simp add: cleanupRoute53Zone_def)
  have rest: "?thesis" if nonempty: "ZoneID (Status pd) \<noteq> []"
    and complete: "listingError (ListResourceRecordSets (R53Client r) (ZoneID (Status pd))) = None"
    using nonempty listRecordSets_complete [OF complete, of "ZoneID (Status pd)" "[]"]
    by (auto simp: cleanupRoute53Zone_def Let_def deleteChanges_def deleteZone_def
             split: option.splits)
  show ?thesis using empty rest by (cases "ZoneID (Status pd) = []") auto
qed


lemmas example_defs = testReconciler_def testStore_def testEnv_def testKey_def testDomain_def
  MockS3Client_def MockR53Client_def provisionedDomain_def deletingDomain_def aliasRecord_def
  populatedR53Client_def vanishingR53Client_def absentR53Client_def populatedS3Client_def
  absentS3Client_def finalizerName_def

theorem cleanupRoute53Zone_teardown_witness:
  "cleanupRoute53Zone (testReconciler testDomain MockS3Client populatedR53Client) testDomain =
     (Ok (), [])
   \<and> cleanupRoute53Zone (testReconciler deletingDomain MockS3Client populatedR53Client)
        deletingDomain =
     (Ok (),
      [R53_ListResourceRecordSets ''MOCKZONEID123'',
       R53_ChangeResourceRecordSets ''MOCKZONEID123''
         \<lparr>Comment = None,
          Changes = [\<lparr>Action = ChangeActionDelete, ChangeRecordSet = aliasRecord\<rparr>]\<rparr>,
       R53_DeleteHostedZone ''MOCKZONEID123''])"
  using cleanupRoute53Zone_teardown
          [of testDomain "testReconciler testDomain MockS3Client populatedR53Client"]
        cleanupRoute53Zone_teardown
          [of deletingDomain "testReconciler deletingDomain MockS3Client populatedR53Client"]
  by (simp add: example_defs Let_def prod_eq_iff)

text \<open>
  Claim C3 as stated fails: for the provisioned test intent, whose zone holds the alias
  record, a change request answered with "zone not found" makes \<open>cleanupRoute53Zone\<close>
  return a failure.
\<close>

theorem cleanupRoute53Zone_record_deletion_not_found:
  "cleanupRoute53Zone (testReconciler deletingDomain MockS3Client vanishingR53Client)
       deletingDomain =
     (Err (Errorf ''failed to delete records from Hosted Zone'' (AwsError NoSuchHostedZone)),
      [R53_ListResourceRecordSets ''MOCKZONEID123'',
       R53_ChangeResourceRecordSets ''MOCKZONEID123''
         \<lparr>Comment = None,
          Changes = [\<lparr>Action = ChangeActionDelete, ChangeRecordSet = aliasRecord\<rparr>]\<rparr>])"
  by (simp add: cleanupRoute53Zone_def deleteChanges_def example_defs Let_def)

text \<open>A listing that ends with an error ends the teardown with that error, whichever
  error it is; so it does for a zone that is gone.\<close>

lemma cleanupRoute53Zone_listing_failed:
  "ZoneID (Status pd) \<noteq> [] \<Longrightarrow>
   listingError (ListResourceRecordSets (R53Client r) (ZoneID (Status pd))) = Some e \<Longrightarrow>
   fst (cleanupRoute53Zone r pd) = Err (Errorf ''failed to list records in Hosted Zone'' (AwsError e))"
proof -
  assume nonempty: "ZoneID (Status pd) \<noteq> []"
    and failed: "listingError (ListResourceRecordSets (R53Client r) (ZoneID (Status pd))) = Some e"
  obtain res tr where run:
    "listRecordSets (ZoneID (Status pd))
       (ListResourceRecordSets (R53Client r) (ZoneID (Status pd))) [] = (res, tr)"
    by (cases "listRecordSets (ZoneID (Status pd))
                 (ListResourceRecordSets (R53Client r) (ZoneID (Status pd))) []")
  have "res = Inl e"
    using listRecordSets_failed [OF failed, of "ZoneID (Status pd)" "[]"] run by simp
  then show ?thesis
    using nonempty run by (simp add: cleanupRoute53Zone_def Let_def)
qed

lemma cleanupRoute53Zone_absent_zone:
  "fst (cleanupRoute53Zone (testReconciler deletingDomain MockS3Client absentR53Client)
          deletingDomain) =
     Err (Errorf ''failed to list records in Hosted Zone'' (AwsError NoSuchHostedZone))"
  by (simp add: cleanupRoute53Zone_def example_defs Let_def)

subsection \<open>Bucket driver: teardown\<close>

lemma pageCalls_fun:
  "pageCalls b =
     (\<lambda>contents. S3_ListObjectsV2 b #
        (if contents \<noteq> [] then [S3_DeleteObjects b (map Key contents)] else []))"
  by (rule ext) (simp add: pageCalls_def)

lemma emptyBucket_run:
  "\<forall>contents \<in> set (pageContents pages).
      contents \<noteq> [] \<longrightarrow> DeleteObjects c b (map Key contents) = None \<Longrightarrow>
   emptyBucket c b pages =
     ((case listingError pages of
         None \<Rightarrow> None
       | Some e \<Rightarrow>
           Some (if e = NoSuchBucket then Ok ()
                 else Err (Errorf ''failed to list objects in S3 bucket for deletion'' (AwsError e)))),
      concat (map (pageCalls b) (pageContents pages))
        @ (case listingError pages of None \<Rightarrow> [] | Some e \<Rightarrow> [S3_ListObjectsV2 b]))"
proof (induction pages)
  case (LastPage xs)
  then show ?case by (simp add: deletePage_def pageCalls_def Let_def)
next
  case (NextPage xs rest)
  then show ?case by (simp add: deletePage_def pageCalls_def Let_def)
next
  case (PageError e)
  then show ?case by simp
qed

lemma deletePage_calls: "x \<in> set (snd (deletePage c b contents)) \<Longrightarrow> s3_call x"
  by (auto simp: deletePage_def Let_def split: if_splits)

lemma emptyBucket_calls: "x \<in> set (snd (emptyBucket c b pages)) \<Longrightarrow> s3_call x"
  by (induction pages)
     (auto simp: case_prod_unfold split: option.splits dest: deletePage_calls)

lemma emptyBucket_no_panic: "fst (emptyBucket c b pages) \<noteq> Some Panic"
  by (induction pages) (auto simp: case_prod_unfold split: option.splits)

lemma deleteBucket_unfold:
  "deleteBucket c b =
     ((case DeleteBucket c b of
         None \<Rightarrow> Ok ()
       | Some e \<Rightarrow> if e = NoSuchBucket then Ok ()
                   else Err (Errorf ''failed to delete S3 bucket'' (AwsError e))),
      [S3_DeleteBucket b])"
  by (simp add: deleteBucket_def split: option.splits)

lemma cleanupS3Bucket_calls: "x \<in> set (snd (cleanupS3Bucket r pd)) \<Longrightarrow> s3_call x"
  by (auto simp: cleanupS3Bucket_def Let_def deleteBucket_unfold case_prod_unfold
           split: sum.splits option.splits dest: emptyBucket_calls)

lemma cleanupS3Bucket_no_panic: "fst (cleanupS3Bucket r pd) \<noteq> Panic"
  using emptyBucket_no_panic
  by (auto simp: cleanupS3Bucket_def Let_def deleteBucket_unfold case_prod_unfold
           split: sum.splits option.splits)

text \<open>
  Claim C6. With a client for the region of the intent and every batch deletion of a listed
  page accepted: when the listing of objects runs to its last page, \<open>cleanupS3Bucket\<close>
  sends one listing request for each page, after each non-empty page one batch deletion of
  all keys of that page, and after the last page the deletion of the bucket, and it returns
  success when that deletion succeeds or answers "no such bucket"; when the listing ends
  with "no such bucket", it returns success.
\<close>

theorem cleanupS3Bucket_teardown:
  assumes client:
      "GetClient r (if Region (Spec pd) = [] then ''eu-central-1'' else Region (Spec pd)) = Inr c"
    and deleted:
      "\<forall>contents \<in> set (pageContents (ListObjectsV2 c (DomainName (Spec pd)))).
         contents \<noteq> [] \<longrightarrow> DeleteObjects c (DomainName (Spec pd)) (map Key contents) = None"
  shows
    "(let bucketName = DomainName (Spec pd);
          region = (if Region (Spec pd) = [] then ''eu-central-1'' else Region (Spec pd));
          listed = pageContents (ListObjectsV2 c bucketName)
      in (listingError (ListObjectsV2 c bucketName) = None \<longrightarrow>
            snd (cleanupS3Bucket r pd) =
              S3_GetClient region #
                concat (map (\<lambda>contents.
                               S3_ListObjectsV2 bucketName #
                                 (if contents \<noteq> []
                                  then [S3_DeleteObjects bucketName (map Key contents)] else []))
                          listed)
                @ [S3_DeleteBucket bucketName]
          \<and> (DeleteBucket c bucketName = None \<or> DeleteBucket c bucketName = Some NoSuchBucket \<longrightarrow>
               fst (cleanupS3Bucket r pd) = Ok ()))
       \<and> (listingError (ListObjectsV2 c bucketName) = Some NoSuchBucket \<longrightarrow>
            fst (cleanupS3Bucket r pd) = Ok ()))"
  using client emptyBucket_run [OF deleted]
  by (auto simp: cleanupS3Bucket_def defaultRegion_def Let_def deleteBucket_unfold pageCalls_fun
           split: option.splits)

theorem cleanupS3Bucket_teardown_witness:
  "cleanupS3Bucket
       (testReconciler deletingDomain (populatedS3Client\<lparr>DeleteBucket := (\<lambda>b. Some NoSuchBucket)\<rparr>)
          MockR53Client)
       deletingDomain =
     (Ok (),
      [S3_GetClient ''eu-central-1'', S3_ListObjectsV2 ''test.example.com'',
       S3_DeleteObjects ''test.example.com'' [''index.html''],
       S3_ListObjectsV2 ''test.example.com'', S3_DeleteBucket ''test.example.com''])
   \<and> fst (cleanupS3Bucket (testReconciler deletingDomain absentS3Client MockR53Client)
             deletingDomain) = Ok ()"
  using cleanupS3Bucket_teardown
          [of "testReconciler deletingDomain
                 (populatedS3Client\<lparr>DeleteBucket := (\<lambda>b. Some NoSuchBucket)\<rparr>) MockR53Client"
              deletingDomain "populatedS3Client\<lparr>DeleteBucket := (\<lambda>b. Some NoSuchBucket)\<rparr>"]
        cleanupS3Bucket_teardown
          [of "testReconciler deletingDomain absentS3Client MockR53Client"
              deletingDomain absentS3Client]
  by (simp add: example_defs Let_def prod_eq_iff)

text \<open>The earlier copy of the teardown returns the failure of the listing for a bucket
  that is gone.\<close>

lemma cleanupS3Bucket_legacy_absent_bucket:
  "fst (cleanupS3Bucket_legacy (testReconciler deletingDomain absentS3Client MockR53Client)
          deletingDomain) =
     Err (Errorf ''failed to list objects in S3 bucket for deletion'' (AwsError NoSuchBucket))"
  by (simp add: cleanupS3Bucket_legacy_def example_defs Let_def)

subsection \<open>Finalizer gate\<close>

text \<open>
  Claim C5. For a fetched intent that is marked for deletion and holds the finalizer token:
  \<open>Reconcile\<close> runs the bucket teardown first, whose requests all go to the storage host.
  When it fails, the error is returned, the zone teardown is not run and the object keeps its
  token. Otherwise the zone teardown follows, whose requests all go to the DNS provider; when
  it fails, the error is returned and the object keeps its token. Only when both have
  succeeded is the token removed and the object without it sent to the store, as the last
  request; no teardown request writes to the store. Neither teardown panics.
\<close>

theorem Reconcile_delete_finalizer:
  assumes fetched: "Get (Client r) req = Inr pd"
      and deleting: "\<not> IsZero (DeletionTimestamp pd)"
      and token: "finalizerName \<in> set (Finalizers pd)"
  shows
    "(let bucket = cleanupS3Bucket r pd;
          zone = cleanupRoute53Zone r pd;
          pd' = pd\<lparr>Finalizers := filter (\<lambda>f. f \<noteq> finalizerName) (Finalizers pd)\<rparr>
      in (\<forall>e. fst bucket = Err e \<longrightarrow>
            Reconcile r req = (Err e, K8s_Get req # snd bucket, Some pd))
       \<and> (\<forall>e. fst bucket = Ok () \<and> fst zone = Err e \<longrightarrow>
            Reconcile r req = (Err e, K8s_Get req # snd bucket @ snd zone, Some pd))
       \<and> (fst bucket = Ok () \<and> fst zone = Ok () \<longrightarrow>
            Reconcile r req =
              ((case Update (Client r) pd' of None \<Rightarrow> Ok () | Some e \<Rightarrow> Err (ApiError e)),
               K8s_Get req # snd bucket @ snd zone @ [K8s_Update pd'], Some pd'))
       \<and> (\<forall>x \<in> set (snd bucket). s3_call x)
       \<and> (\<forall>x \<in> set (snd zone). r53_call x)
       \<and> fst bucket \<noteq> Panic \<and> fst zone \<noteq> Panic)"
proof -
  obtain res1 tr1 where bucket: "cleanupS3Bucket r pd = (res1, tr1)"
    by (cases "cleanupS3Bucket r pd")
  obtain res2 tr2 where zone: "cleanupRoute53Zone r pd = (res2, tr2)"
    by (cases "cleanupRoute53Zone r pd")
  have np1: "res1 \<noteq> Panic" using cleanupS3Bucket_no_panic [of r pd] bucket by simp
  have np2: "res2 \<noteq> Panic" using cleanupRoute53Zone_no_panic [of r pd] zone by simp
  have s3: "\<forall>x \<in> set tr1. s3_call x" using cleanupS3Bucket_calls [of _ r pd] bucket by simp
  have r53: "\<forall>x \<in> set tr2. r53_call x" using cleanupRoute53Zone_calls [of _ r pd] zone by simp
  have run: "Reconcile r req = (case Reconcile_delete r pd of
                 (res, tr, pd') \<Rightarrow> (res, K8s_Get req # tr, Some pd'))"
    using fetched deleting by (simp add: Reconcile_def)
  show ?thesis
  proof (cases res1)
    case (Ok u)
    show ?thesis
    proof (cases res2)
      case (Ok v)
      with \<open>res1 = Ok u\<close> show ?thesis
        using run bucket zone token s3 r53
        by (simp add: Reconcile_delete_def ContainsFinalizer_def RemoveFinalizer_def Let_def
                 split: option.splits)
    next
      case (Err e)
      with \<open>res1 = Ok u\<close> show ?thesis
        using run bucket zone token s3 r53
        by (simp add: Reconcile_delete_def ContainsFinalizer_def Let_def)
    next
      case Panic
      with np2 show ?thesis by simp
    qed
  next
    case (Err e)
    then show ?thesis
      using run bucket zone token s3 r53 np2
      by (simp add: Reconcile_delete_def ContainsFinalizer_def Let_def)
  next
    case Panic
    with np1 show ?thesis by simp
  qed
qed

theorem Reconcile_delete_finalizer_witness:
  "Reconcile (testReconciler deletingDomain populatedS3Client populatedR53Client) testKey =
     (Ok (),
      [K8s_Get testKey,
       S3_GetClient ''eu-central-1'', S3_ListObjectsV2 ''test.example.com'',
       S3_DeleteObjects ''test.example.com'' [''index.html''],
       S3_ListObjectsV2 ''test.example.com'', S3_DeleteBucket ''test.example.com'',
       R53_ListResourceRecordSets ''MOCKZONEID123'',
       R53_ChangeResourceRecordSets ''MOCKZONEID123''
         \<lparr>Comment = None,
          Changes = [\<lparr>Action = ChangeActionDelete, ChangeRecordSet = aliasRecord\<rparr>]\<rparr>,
       R53_DeleteHostedZone ''MOCKZONEID123'',
       K8s_Update (deletingDomain\<lparr>Finalizers := []\<rparr>)],
      Some (deletingDomain\<lparr>Finalizers := []\<rparr>))
   \<and> Reconcile (testReconciler deletingDomain populatedS3Client vanishingR53Client) testKey =
     (Err (Errorf ''failed to delete records from Hosted Zone'' (AwsError NoSuchHostedZone)),
      [K8s_Get testKey,
       S3_GetClient ''eu-central-1'', S3_ListObjectsV2 ''test.example.com'',
       S3_DeleteObjects ''test.example.com'' [''index.html''],
       S3_ListObjectsV2 ''test.example.com'', S3_DeleteBucket ''test.example.com'',
       R53_ListResourceRecordSets ''MOCKZONEID123'',
       R53_ChangeResourceRecordSets ''MOCKZONEID123''
         \<lparr>Comment = None,
          Changes = [\<lparr>Action = ChangeActionDelete, ChangeRecordSet = aliasRecord\<rparr>]\<rparr>],
      Some deletingDomain)
   \<and> finalizerName \<in> set (Finalizers deletingDomain)"
  using Reconcile_delete_finalizer
          [of "testReconciler deletingDomain populatedS3Client populatedR53Client" testKey
              deletingDomain]
        Reconcile_delete_finalizer
          [of "testReconciler deletingDomain populatedS3Client vanishingR53Client" testKey
              deletingDomain]
  by (simp add: example_defs cleanupS3Bucket_def cleanupRoute53Zone_def deleteBucket_def
        deleteZone_def deletePage_def deleteChanges_def defaultRegion_def Let_def)


lemma Reconcile_resources_starts:
  "\<exists>tr. fst (snd (Reconcile_resources r pd)) = R53_ListHostedZonesByName (DomainName (Spec pd)) # tr"
  by (auto simp: Reconcile_resources_def reconcileRoute53Zone_def Let_def
           split: prod.splits result.splits sum.splits option.splits)

text \<open>
  Claim C2, as amended. For a fetched intent that is not marked for deletion and lacks the
  finalizer token, \<open>Reconcile\<close> appends the token and sends the object to the store as its
  second request. When the store refuses the update, the invocation returns that error and
  has sent nothing else. When the store accepts it, the same invocation goes on with the
  stages on the updated object, the first request of which is the lookup of the zone by
  name, and returns what they return.
\<close>

theorem Reconcile_adds_finalizer:
  assumes fetched: "Get (Client r) req = Inr pd"
      and live: "IsZero (DeletionTimestamp pd)"
      and no_token: "finalizerName \<notin> set (Finalizers pd)"
  shows
    "(let pd' = pd\<lparr>Finalizers := Finalizers pd @ [finalizerName]\<rparr>
      in take 2 (fst (snd (Reconcile r req))) = [K8s_Get req, K8s_Update pd']
       \<and> (\<forall>e. Update (Client r) pd' = Some e \<longrightarrow>
            Reconcile r req = (Err (ApiError e), [K8s_Get req, K8s_Update pd'], Some pd'))
       \<and> (Update (Client r) pd' = None \<longrightarrow>
            fst (Reconcile r req) = fst (Reconcile_resources r pd')
          \<and> fst (snd (Reconcile r req)) =
              K8s_Get req # K8s_Update pd' # fst (snd (Reconcile_resources r pd'))
          \<and> (\<exists>tr. fst (snd (Reconcile_resources r pd')) =
                      R53_ListHostedZonesByName (DomainName (Spec pd)) # tr)))"
  using fetched live no_token
        Reconcile_resources_starts [of r "pd\<lparr>Finalizers := Finalizers pd @ [finalizerName]\<rparr>"]
  by (auto simp: Reconcile_def ContainsFinalizer_def AddFinalizer_def Let_def
           split: option.splits prod.splits)

theorem Reconcile_adds_finalizer_witness:
  "Reconcile (testReconciler testDomain MockS3Client MockR53Client
                \<lparr>Client := (testStore testDomain)\<lparr>Update := (\<lambda>pd. Some (K8sOtherError ''conflict''))\<rparr>\<rparr>)
       testKey =
     (Err (ApiError (K8sOtherError ''conflict'')),
      [K8s_Get testKey, K8s_Update (testDomain\<lparr>Finalizers := [finalizerName]\<rparr>)],
      Some (testDomain\<lparr>Finalizers := [finalizerName]\<rparr>))
   \<and> take 3 (fst (snd (Reconcile (testReconciler testDomain MockS3Client MockR53Client) testKey))) =
     [K8s_Get testKey, K8s_Update (testDomain\<lparr>Finalizers := [finalizerName]\<rparr>),
      R53_ListHostedZonesByName ''test.example.com'']"
  using Reconcile_adds_finalizer
          [of "testReconciler testDomain MockS3Client MockR53Client
                 \<lparr>Client := (testStore testDomain)\<lparr>Update := (\<lambda>pd. Some (K8sOtherError ''conflict''))\<rparr>\<rparr>"
              testKey testDomain]
        Reconcile_adds_finalizer
          [of "testReconciler testDomain MockS3Client MockR53Client" testKey testDomain]
  by (auto simp: testReconciler_def testStore_def testKey_def testDomain_def finalizerName_def
        Let_def)

text \<open>
  Claim C2 as stated fails. The test intent is not marked for deletion and has no token;
  with the mock clients of the test, the one invocation that adds the token also creates the
  zone and the bucket, uploads the page, upserts the record and writes the status.
\<close>

theorem Reconcile_first_sight_resource_work:
  "IsZero (DeletionTimestamp testDomain)
   \<and> finalizerName \<notin> set (Finalizers testDomain)
   \<and> Reconcile (testReconciler testDomain MockS3Client MockR53Client) testKey =
     (Ok (),
      [K8s_Get testKey,
       K8s_Update (testDomain\<lparr>Finalizers := [finalizerName]\<rparr>),
       R53_ListHostedZonesByName ''test.example.com'',
       R53_CreateHostedZone ''test.example.com'' ''parkeddomain-operator-test-domain-1700000000'',
       S3_GetClient ''eu-central-1'',
       S3_HeadBucket ''test.example.com'',
       S3_CreateBucket ''test.example.com'' (Some ''eu-central-1''),
       K8s_GetConfigMap (''parking-templates'', ''default''),
       S3_PutObject ''test.example.com'' ''index.html'' ''<h1>test.example.com</h1>'' ''text/html'',
       S3_PutBucketWebsite ''test.example.com'' ''index.html'',
       S3_PutBucketPolicy ''test.example.com'' (bucketPolicy ''test.example.com''),
       R53_ChangeResourceRecordSets ''MOCKZONEID123''
         \<lparr>Comment = Some ''Managed by ParkedDomain Operator'',
          Changes =
            [\<lparr>Action = ChangeActionUpsert,
              ChangeRecordSet =
                \<lparr>RecordName = ''test.example.com'', RecordType = ''A'',
                 RecordAliasTarget =
                   Some \<lparr>HostedZoneId = ''Z21DNDUVLTQW6Q'',
                         DNSName = ''test.example.com.s3-website.eu-central-1.amazonaws.com'',
                         EvaluateTargetHealth = False\<rparr>\<rparr>\<rparr>]\<rparr>,
       K8s_StatusUpdate provisionedDomain],
      Some provisionedDomain)"
  by (simp add: Reconcile_def Reconcile_resources_def example_defs ContainsFinalizer_def
        AddFinalizer_def reconcileRoute53Zone_def createdZone_def stripHostedZone_def
        callerReference_def Sprintf_d_now reconcileS3Bucket_def defaultRegion_def ensureBucket_def
        finalContent_def configureBucket_def s3Endpoint_def reconcileRoute53ARecord_def
        aliasChangeBatch_def getS3WebsiteHostedZoneID_def s3HostedZoneIDs_def Let_def)

subsection \<open>Status reporter\<close>

lemma s3_call_not_written: "s3_call x \<Longrightarrow> written x = None"
  by (cases x) simp_all

lemma r53_call_not_written: "r53_call x \<Longrightarrow> written x = None"
  by (cases x) simp_all

lemma reconcileRoute53Zone_calls: "x \<in> set (snd (reconcileRoute53Zone r pd)) \<Longrightarrow> r53_call x"
  by (auto simp: reconcileRoute53Zone_def Let_def split: sum.splits option.splits if_splits)

lemma reconcileRoute53ARecord_calls:
  "x \<in> set (snd (reconcileRoute53ARecord r pd zoneID endpoint)) \<Longrightarrow> r53_call x"
  by (auto simp: reconcileRoute53ARecord_def Let_def split: option.splits if_splits)

lemma ensureBucket_calls: "x \<in> set (snd (ensureBucket c b region)) \<Longrightarrow> s3_call x"
  by (auto simp: ensureBucket_def Let_def split: option.splits if_splits)

lemma finalContent_calls: "x \<in> set (snd (finalContent r pd)) \<Longrightarrow> written x = None"
  by (auto simp: finalContent_def Let_def split: sum.splits option.splits if_splits)

lemma configureBucket_calls: "x \<in> set (snd (configureBucket c b content)) \<Longrightarrow> s3_call x"
  by (auto simp: configureBucket_def split: option.splits)

lemma reconcileS3Bucket_calls: "x \<in> set (snd (reconcileS3Bucket r pd)) \<Longrightarrow> written x = None"
  by (auto simp: reconcileS3Bucket_def Let_def case_prod_unfold
           split: sum.splits option.splits
           dest: ensureBucket_calls finalContent_calls configureBucket_calls s3_call_not_written)

lemma Reconcile_create_path:
  assumes fetched: "Get (Client r) req = Inr pd0"
      and live: "IsZero (DeletionTimestamp pd0)"
      and registered: "finalizerName \<in> set (Finalizers pd0)
                     \<or> Update (Client r) (AddFinalizer pd0 finalizerName) = None"
  shows "Reconcile r req =
           (fst (Reconcile_resources r (AddFinalizer pd0 finalizerName)),
            K8s_Get req #
              (if finalizerName \<in> set (Finalizers pd0) then []
               else [K8s_Update (AddFinalizer pd0 finalizerName)])
              @ fst (snd (Reconcile_resources r (AddFinalizer pd0 finalizerName))),
            Some (snd (snd (Reconcile_resources r (AddFinalizer pd0 finalizerName)))))"
proof (cases "finalizerName \<in> set (Finalizers pd0)")
  case True
  then have same: "AddFinalizer pd0 finalizerName = pd0" by (simp add: AddFinalizer_def)
  show ?thesis
    using fetched live True
    by (simp add: Reconcile_def ContainsFinalizer_def same case_prod_unfold)
next
  case False
  with registered have "Update (Client r) (AddFinalizer pd0 finalizerName) = None" by simp
  then show ?thesis
    using fetched live False
    by (simp add: Reconcile_def ContainsFinalizer_def Let_def case_prod_unfold)
qed

lemma Reconcile_resources_zone_failed:
  "reconcileRoute53Zone r pd = (Err e, tr) \<Longrightarrow>
   Reconcile_resources r pd =
     (Err e, tr @ [K8s_StatusUpdate (setStatusTag pd ''Error: Route53 Zone'')],
      setStatusTag pd ''Error: Route53 Zone'')"
  by (simp add: Reconcile_resources_def Let_def)

lemma Reconcile_resources_bucket_failed:
  "reconcileRoute53Zone r pd = (Ok (z, ns), tr) \<Longrightarrow> reconcileS3Bucket r pd = (Err e, tr') \<Longrightarrow>
   Reconcile_resources r pd =
     (Err e, tr @ tr' @ [K8s_StatusUpdate (setStatusTag pd ''Error: S3 Bucket'')],
      setStatusTag pd ''Error: S3 Bucket'')"
  by (simp add: Reconcile_resources_def Let_def)

lemma Reconcile_resources_record_failed:
  "reconcileRoute53Zone r pd = (Ok (z, ns), tr) \<Longrightarrow> reconcileS3Bucket r pd = (Ok ep, tr') \<Longrightarrow>
   reconcileRoute53ARecord r pd z ep = (Err e, tr'') \<Longrightarrow>
   Reconcile_resources r pd =
     (Err e, tr @ tr' @ tr'' @ [K8s_StatusUpdate (setStatusTag pd ''Error: Route53 A Record'')],
      setStatusTag pd ''Error: Route53 A Record'')"
  by (simp add: Reconcile_resources_def Let_def)

lemma Reconcile_resources_succeeded:
  "reconcileRoute53Zone r pd = (Ok (z, ns), tr) \<Longrightarrow> reconcileS3Bucket r pd = (Ok ep, tr') \<Longrightarrow>
   reconcileRoute53ARecord r pd z ep = (Ok u, tr'') \<Longrightarrow>
   Reconcile_resources r pd =
     ((case StatusUpdate (Client r)
              (pd\<lparr>Status := \<lparr>StatusTag = ''Provisioned'', ZoneID = z, NameServers = ns\<rparr>\<rparr>) of
         None \<Rightarrow> Ok () | Some e \<Rightarrow> Err (ApiError e)),
      tr @ tr' @ tr'' @
        [K8s_StatusUpdate (pd\<lparr>Status := \<lparr>StatusTag = ''Provisioned'', ZoneID = z, NameServers = ns\<rparr>\<rparr>)],
      pd\<lparr>Status := \<lparr>StatusTag = ''Provisioned'', ZoneID = z, NameServers = ns\<rparr>\<rparr>)"
  by (simp add: Reconcile_resources_def Let_def split: option.splits)

text \<open>
  Claim C8. For a fetched intent that is not marked for deletion and has passed the
  finalizer gate (the token was there, or the update that adds it was accepted): when the
  zone stage returns an error, \<open>Reconcile\<close> returns that error, the object it leaves has the
  state tag \<open>Error: Route53 Zone\<close>, and its last request writes that object as status; so
  for the bucket stage with \<open>Error: S3 Bucket\<close> and for the record stage with
  \<open>Error: Route53 A Record\<close>. When all three stages succeed, the status of the object is
  \<open>Provisioned\<close> with the identifier and the nameservers of the zone stage, the last
  request writes it, and \<open>Reconcile\<close> returns what that write returns.
\<close>

theorem Reconcile_stage_status:
  assumes fetched: "Get (Client r) req = Inr pd0"
      and live: "IsZero (DeletionTimestamp pd0)"
      and registered: "finalizerName \<in> set (Finalizers pd0)
                     \<or> Update (Client r) (pd0\<lparr>Finalizers := Finalizers pd0 @ [finalizerName]\<rparr>) = None"
  shows
    "(let pd = (if finalizerName \<in> set (Finalizers pd0) then pd0
                else pd0\<lparr>Finalizers := Finalizers pd0 @ [finalizerName]\<rparr>);
          failed = (\<lambda>e tag.
             fst (Reconcile r req) = Err e
           \<and> snd (snd (Reconcile r req)) = Some (pd\<lparr>Status := (Status pd)\<lparr>StatusTag := tag\<rparr>\<rparr>)
           \<and> last (fst (snd (Reconcile r req))) =
               K8s_StatusUpdate (pd\<lparr>Status := (Status pd)\<lparr>StatusTag := tag\<rparr>\<rparr>))
      in (\<forall>e tr. reconcileRoute53Zone r pd = (Err e, tr) \<longrightarrow> failed e ''Error: Route53 Zone'')
       \<and> (\<forall>z ns tr e tr'.
             reconcileRoute53Zone r pd = (Ok (z, ns), tr) \<and> reconcileS3Bucket r pd = (Err e, tr') \<longrightarrow>
             failed e ''Error: S3 Bucket'')
       \<and> (\<forall>z ns tr ep tr' e tr''.
             reconcileRoute53Zone r pd = (Ok (z, ns), tr) \<and> reconcileS3Bucket r pd = (Ok ep, tr')
             \<and> reconcileRoute53ARecord r pd z ep = (Err e, tr'') \<longrightarrow>
             failed e ''Error: Route53 A Record'')
       \<and> (\<forall>z ns tr ep tr' tr''.
             reconcileRoute53Zone r pd = (Ok (z, ns), tr) \<and> reconcileS3Bucket r pd = (Ok ep, tr')
             \<and> reconcileRoute53ARecord r pd z ep = (Ok (), tr'') \<longrightarrow>
             snd (snd (Reconcile r req)) =
               Some (pd\<lparr>Status := \<lparr>StatusTag = ''Provisioned'', ZoneID = z, NameServers = ns\<rparr>\<rparr>)
           \<and> last (fst (snd (Reconcile r req))) =
               K8s_StatusUpdate
                 (pd\<lparr>Status := \<lparr>StatusTag = ''Provisioned'', ZoneID = z, NameServers = ns\<rparr>\<rparr>)
           \<and> fst (Reconcile r req) =
               (case StatusUpdate (Client r)
                       (pd\<lparr>Status := \<lparr>StatusTag = ''Provisioned'', ZoneID = z,
                                       NameServers = ns\<rparr>\<rparr>) of
                  None \<Rightarrow> Ok () | Some e \<Rightarrow> Err (ApiError e))))"
proof -
  have pd: "(if finalizerName \<in> set (Finalizers pd0) then pd0
             else pd0\<lparr>Finalizers := Finalizers pd0 @ [finalizerName]\<rparr>) = AddFinalizer pd0 finalizerName"
    by (simp add: AddFinalizer_def)
  have reg: "finalizerName \<in> set (Finalizers pd0)
             \<or> Update (Client r) (AddFinalizer pd0 finalizerName) = None"
    using registered by (auto simp: AddFinalizer_def)
  note run = Reconcile_create_path [OF fetched live reg]
  show ?thesis
    unfolding pd Let_def
    by (auto simp: run Reconcile_resources_zone_failed Reconcile_resources_bucket_failed
          Reconcile_resources_record_failed Reconcile_resources_succeeded setStatusTag_def)
qed


lemmas stage_defs = Reconcile_def Reconcile_resources_def ContainsFinalizer_def AddFinalizer_def
  setStatusTag_def reconcileRoute53Zone_def createdZone_def stripHostedZone_def callerReference_def
  Sprintf_d_now reconcileS3Bucket_def defaultRegion_def ensureBucket_def finalContent_def
  configureBucket_def s3Endpoint_def reconcileRoute53ARecord_def aliasChangeBatch_def
  getS3WebsiteHostedZoneID_def s3HostedZoneIDs_def

lemmas failure_defs = registeredDomain_def unsupportedDomain_def deniedS3Client_def
  throttledR53Client_def

theorem Reconcile_stage_status_witness:
  "fst (Reconcile (testReconciler registeredDomain MockS3Client throttledR53Client) testKey) =
     Err (Errorf ''failed to list hosted zones'' (AwsError (OtherAwsError ''Throttling'')))
   \<and> snd (snd (Reconcile (testReconciler registeredDomain MockS3Client throttledR53Client) testKey)) =
     Some (registeredDomain\<lparr>Status := \<lparr>StatusTag = ''Error: Route53 Zone'', ZoneID = [],
                                       NameServers = []\<rparr>\<rparr>)
   \<and> fst (Reconcile (testReconciler registeredDomain deniedS3Client MockR53Client) testKey) =
     Err (Errorf ''failed to apply S3 bucket policy'' (AwsError (OtherAwsError ''AccessDenied'')))
   \<and> snd (snd (Reconcile (testReconciler registeredDomain deniedS3Client MockR53Client) testKey)) =
     Some (registeredDomain\<lparr>Status := \<lparr>StatusTag = ''Error: S3 Bucket'', ZoneID = [],
                                       NameServers = []\<rparr>\<rparr>)
   \<and> Reconcile (testReconciler registeredDomain MockS3Client MockR53Client) testKey =
     (Ok (),
      fst (snd (Reconcile (testReconciler registeredDomain MockS3Client MockR53Client) testKey)),
      Some provisionedDomain)"
  using Reconcile_stage_status
          [of "testReconciler registeredDomain MockS3Client throttledR53Client" testKey
              registeredDomain]
        Reconcile_stage_status
          [of "testReconciler registeredDomain deniedS3Client MockR53Client" testKey
              registeredDomain]
        Reconcile_stage_status
          [of "testReconciler registeredDomain MockS3Client MockR53Client" testKey
              registeredDomain]
  by (simp add: stage_defs example_defs failure_defs Let_def prod_eq_iff)

lemma Reconcile_resources_frame:
  assumes partial:
    "\<not> (\<exists>z ns tr ep tr' tr''.
          reconcileRoute53Zone r pd = (Ok (z, ns), tr) \<and> reconcileS3Bucket r pd = (Ok ep, tr')
          \<and> reconcileRoute53ARecord r pd z ep = (Ok (), tr''))"
  shows "(\<forall>x \<in> set (fst (snd (Reconcile_resources r pd))). \<forall>p. written x = Some p \<longrightarrow>
            ZoneID (Status p) = ZoneID (Status pd) \<and> NameServers (Status p) = NameServers (Status pd))
       \<and> ZoneID (Status (snd (snd (Reconcile_resources r pd)))) = ZoneID (Status pd)
       \<and> NameServers (Status (snd (snd (Reconcile_resources r pd)))) = NameServers (Status pd)"
proof -
  obtain res1 tr1 where zone: "reconcileRoute53Zone r pd = (res1, tr1)"
    by (cases "reconcileRoute53Zone r pd")
  have w1: "\<forall>x \<in> set tr1. written x = None"
    using reconcileRoute53Zone_calls [of _ r pd] zone by (auto dest: r53_call_not_written)
  obtain res2 tr2 where bucket: "reconcileS3Bucket r pd = (res2, tr2)"
    by (cases "reconcileS3Bucket r pd")
  have w2: "\<forall>x \<in> set tr2. written x = None"
    using reconcileS3Bucket_calls [of _ r pd] bucket by auto
  show ?thesis
  proof (cases res1)
    case (Ok zn)
    obtain z ns where zn: "zn = (z, ns)" by (cases zn)
    show ?thesis
    proof (cases res2)
      case (Ok ep)
      obtain res3 tr3 where upsert: "reconcileRoute53ARecord r pd z ep = (res3, tr3)"
        by (cases "reconcileRoute53ARecord r pd z ep")
      have w3: "\<forall>x \<in> set tr3. written x = None"
        using reconcileRoute53ARecord_calls [of _ r pd z ep] upsert
        by (auto dest: r53_call_not_written)
      show ?thesis
      proof (cases res3)
        case (Ok u)
        with partial zone bucket upsert \<open>res1 = Ok zn\<close> zn \<open>res2 = Ok ep\<close> show ?thesis by simp
      next
        case (Err e)
        with zone bucket upsert \<open>res1 = Ok zn\<close> zn \<open>res2 = Ok ep\<close> w1 w2 w3 show ?thesis
          by (auto simp: Reconcile_resources_def Let_def setStatusTag_def)
      next
        case Panic
        with zone bucket upsert \<open>res1 = Ok zn\<close> zn \<open>res2 = Ok ep\<close> w1 w2 w3 show ?thesis
          by (auto simp: Reconcile_resources_def Let_def setStatusTag_def)
      qed
    next
      case (Err e)
      with zone bucket \<open>res1 = Ok zn\<close> zn w1 w2 show ?thesis
        by (auto simp: Reconcile_resources_def Let_def setStatusTag_def)
    next
      case Panic
      with zone bucket \<open>res1 = Ok zn\<close> zn w1 w2 show ?thesis
        by (auto simp: Reconcile_resources_def Let_def setStatusTag_def)
    qed
  next
    case (Err e)
    with zone w1 show ?thesis
      by (auto simp: Reconcile_resources_def Let_def setStatusTag_def)
  next
    case Panic
    with zone w1 show ?thesis
      by (auto simp: Reconcile_resources_def Let_def setStatusTag_def)
  qed
qed

lemma Reconcile_delete_frame:
  "(\<forall>x \<in> set (fst (snd (Reconcile_delete r pd))). \<forall>p. written x = Some p \<longrightarrow> Status p = Status pd)
   \<and> Status (snd (snd (Reconcile_delete r pd))) = Status pd"
proof -
  obtain res1 tr1 where bucket: "cleanupS3Bucket r pd = (res1, tr1)"
    by (cases "cleanupS3Bucket r pd")
  obtain res2 tr2 where zone: "cleanupRoute53Zone r pd = (res2, tr2)"
    by (cases "cleanupRoute53Zone r pd")
  have w1: "\<forall>x \<in> set tr1. written x = None"
    using cleanupS3Bucket_calls [of _ r pd] bucket by (auto dest: s3_call_not_written)
  have w2: "\<forall>x \<in> set tr2. written x = None"
    using cleanupRoute53Zone_calls [of _ r pd] zone by (auto dest: r53_call_not_written)
  show ?thesis
    using bucket zone w1 w2
    by (auto simp: Reconcile_delete_def RemoveFinalizer_def Let_def
             split: result.splits option.splits)
qed


text \<open>
  Claim C10. For a fetched intent: when the invocation reaches the stages and all three
  succeed, the object it leaves and writes last carries the zone identifier and the
  nameservers of the zone stage. In every other invocation, every object sent to the store
  and the object left in memory carry the zone identifier and the nameservers that were
  fetched; so a zone created by a run whose later stage fails is not recorded.
\<close>

theorem Reconcile_status_frame:
  assumes fetched: "Get (Client r) req = Inr pd0"
  shows
    "(let pd = (if finalizerName \<in> set (Finalizers pd0) then pd0
                else pd0\<lparr>Finalizers := Finalizers pd0 @ [finalizerName]\<rparr>);
          stages = (\<lambda>z ns ep.
             IsZero (DeletionTimestamp pd0)
           \<and> (finalizerName \<in> set (Finalizers pd0) \<or> Update (Client r) pd = None)
           \<and> (\<exists>tr. reconcileRoute53Zone r pd = (Ok (z, ns), tr))
           \<and> (\<exists>tr. reconcileS3Bucket r pd = (Ok ep, tr))
           \<and> (\<exists>tr. reconcileRoute53ARecord r pd z ep = (Ok (), tr)))
      in (\<forall>z ns ep. stages z ns ep \<longrightarrow>
            (\<exists>p. snd (snd (Reconcile r req)) = Some p
                \<and> last (fst (snd (Reconcile r req))) = K8s_StatusUpdate p
                \<and> ZoneID (Status p) = z \<and> NameServers (Status p) = ns))
       \<and> (\<not> (\<exists>z ns ep. stages z ns ep) \<longrightarrow>
            (\<forall>x \<in> set (fst (snd (Reconcile r req))). \<forall>p. written x = Some p \<longrightarrow>
               ZoneID (Status p) = ZoneID (Status pd0)
             \<and> NameServers (Status p) = NameServers (Status pd0))
          \<and> (\<forall>p. snd (snd (Reconcile r req)) = Some p \<longrightarrow>
               ZoneID (Status p) = ZoneID (Status pd0)
             \<and> NameServers (Status p) = NameServers (Status pd0))))"
proof -
  let ?pd = "AddFinalizer pd0 finalizerName"
  have pd: "(if finalizerName \<in> set (Finalizers pd0) then pd0
             else pd0\<lparr>Finalizers := Finalizers pd0 @ [finalizerName]\<rparr>) = ?pd"
    by (simp add: AddFinalizer_def)
  have status: "Status ?pd = Status pd0"
    by (simp add: AddFinalizer_def)
  let ?full = "\<lambda>z ns ep.
      IsZero (DeletionTimestamp pd0)
    \<and> (finalizerName \<in> set (Finalizers pd0) \<or> Update (Client r) ?pd = None)
    \<and> (\<exists>tr. reconcileRoute53Zone r ?pd = (Ok (z, ns), tr))
    \<and> (\<exists>tr. reconcileS3Bucket r ?pd = (Ok ep, tr))
    \<and> (\<exists>tr. reconcileRoute53ARecord r ?pd z ep = (Ok (), tr))"
  have success: "\<exists>p. snd (snd (Reconcile r req)) = Some p
                   \<and> last (fst (snd (Reconcile r req))) = K8s_StatusUpdate p
                   \<and> ZoneID (Status p) = z \<and> NameServers (Status p) = ns"
    if "?full z ns ep" for z ns ep
  proof -
    from that obtain tr tr' tr'' where
      live: "IsZero (DeletionTimestamp pd0)"
      and reg: "finalizerName \<in> set (Finalizers pd0) \<or> Update (Client r) ?pd = None"
      and zone: "reconcileRoute53Zone r ?pd = (Ok (z, ns), tr)"
      and bucket: "reconcileS3Bucket r ?pd = (Ok ep, tr')"
      and upsert: "reconcileRoute53ARecord r ?pd z ep = (Ok (), tr'')"
      by blast
    show ?thesis
      by (simp add: Reconcile_create_path [OF fetched live reg]
            Reconcile_resources_succeeded [OF zone bucket upsert])
  qed
  have frame: "(\<forall>x \<in> set (fst (snd (Reconcile r req))). \<forall>p. written x = Some p \<longrightarrow>
                  ZoneID (Status p) = ZoneID (Status pd0)
                \<and> NameServers (Status p) = NameServers (Status pd0))
             \<and> (\<forall>p. snd (snd (Reconcile r req)) = Some p \<longrightarrow>
                  ZoneID (Status p) = ZoneID (Status pd0)
                \<and> NameServers (Status p) = NameServers (Status pd0))"
    if partial: "\<not> (\<exists>z ns ep. ?full z ns ep)"
  proof (cases "IsZero (DeletionTimestamp pd0)")
    case False
    then have run: "Reconcile r req =
        (fst (Reconcile_delete r pd0), K8s_Get req # fst (snd (Reconcile_delete r pd0)),
         Some (snd (snd (Reconcile_delete r pd0))))"
      using fetched by (simp add: Reconcile_def case_prod_unfold)
    show ?thesis
      using Reconcile_delete_frame [of r pd0] by (auto simp: run)
  next
    case live: True
    show ?thesis
    proof (cases "finalizerName \<in> set (Finalizers pd0) \<or> Update (Client r) ?pd = None")
      case False
      then obtain e where refused: "Update (Client r) ?pd = Some e" by auto
      have "Reconcile r req = (Err (ApiError e), [K8s_Get req, K8s_Update ?pd], Some ?pd)"
        using fetched live False refused
        by (simp add: Reconcile_def ContainsFinalizer_def Let_def)
      then show ?thesis by (simp add: status)
    next
      case reg: True
      have stagewise: "\<not> (\<exists>z ns tr ep tr' tr''.
          reconcileRoute53Zone r ?pd = (Ok (z, ns), tr) \<and> reconcileS3Bucket r ?pd = (Ok ep, tr')
          \<and> reconcileRoute53ARecord r ?pd z ep = (Ok (), tr''))"
        using partial live reg by blast
      show ?thesis
        using Reconcile_resources_frame [OF stagewise]
        by (auto simp: Reconcile_create_path [OF fetched live reg] status)
    qed
  qed
  show ?thesis
    unfolding pd Let_def using success frame by blast
qed

theorem Reconcile_status_frame_witness:
  "Reconcile (testReconciler unsupportedDomain MockS3Client MockR53Client) testKey =
     (Err (ErrorString ''unsupported S3 website region for alias record: ap-south-1''),
      [K8s_Get testKey,
       R53_ListHostedZonesByName ''test.example.com'',
       R53_CreateHostedZone ''test.example.com'' ''parkeddomain-operator-test-domain-1700000000'',
       S3_GetClient ''ap-south-1'',
       S3_HeadBucket ''test.example.com'',
       S3_CreateBucket ''test.example.com'' (Some ''ap-south-1''),
       K8s_GetConfigMap (''parking-templates'', ''default''),
       S3_PutObject ''test.example.com'' ''index.html'' ''<h1>test.example.com</h1>'' ''text/html'',
       S3_PutBucketWebsite ''test.example.com'' ''index.html'',
       S3_PutBucketPolicy ''test.example.com'' (bucketPolicy ''test.example.com''),
       K8s_StatusUpdate
         (unsupportedDomain\<lparr>Status := \<lparr>StatusTag = ''Error: Route53 A Record'', ZoneID = [],
                                         NameServers = []\<rparr>\<rparr>)],
      Some (unsupportedDomain\<lparr>Status := \<lparr>StatusTag = ''Error: Route53 A Record'', ZoneID = [],
                                           NameServers = []\<rparr>\<rparr>))
   \<and> snd (snd (Reconcile (testReconciler registeredDomain populatedS3Client MockR53Client) testKey)) =
     Some provisionedDomain"
  using Reconcile_status_frame
          [of "testReconciler unsupportedDomain MockS3Client MockR53Client" testKey
              unsupportedDomain]
        Reconcile_status_frame
          [of "testReconciler registeredDomain populatedS3Client MockR53Client" testKey
              registeredDomain]
  by (simp add: stage_defs example_defs failure_defs Let_def)

subsection \<open>Bucket driver: resumption\<close>

lemma finalContent_resolved:
  "Getenv r ''TEMPLATE_CONFIGMAP_NAME'' \<noteq> [] \<Longrightarrow>
   GetConfigMap (Client r)
     (Getenv r ''TEMPLATE_CONFIGMAP_NAME'',
      if Getenv r ''TEMPLATE_CONFIGMAP_NAMESPACE'' = [] then Namespace pd
      else Getenv r ''TEMPLATE_CONFIGMAP_NAMESPACE'') = Inr templates \<Longrightarrow>
   templates (if TemplateName (Spec pd) = [] then ''default.html'' else TemplateName (Spec pd))
     = Some template \<Longrightarrow>
   finalContent r pd =
     (Inr (strings_ReplaceAll template ''{{DOMAIN_NAME}}'' (DomainName (Spec pd))),
      [K8s_GetConfigMap
         (Getenv r ''TEMPLATE_CONFIGMAP_NAME'',
          if Getenv r ''TEMPLATE_CONFIGMAP_NAMESPACE'' = [] then Namespace pd
          else Getenv r ''TEMPLATE_CONFIGMAP_NAMESPACE'')])"
  by (simp add: finalContent_def Let_def)

lemma finalContent_same_inputs:
  assumes env: "Getenv r1 = Getenv r2"
      and store: "GetConfigMap (Client r1) = GetConfigMap (Client r2)"
  shows "finalContent r1 pd = finalContent r2 pd"
  unfolding finalContent_def env store by (rule refl)

lemma finalContent_reads: "x \<in> set (snd (finalContent r pd)) \<Longrightarrow> \<exists>k. x = K8s_GetConfigMap k"
  by (auto simp: finalContent_def Let_def split: sum.splits option.splits if_splits)

lemma finalContent_no_create:
  "x \<in> set (snd (finalContent r pd)) \<Longrightarrow> \<not> create_bucket_call x"
  by (auto simp: finalContent_def Let_def split: sum.splits option.splits if_splits)

lemma ensureBucket_existing:
  "HeadBucket c b = None \<Longrightarrow> ensureBucket c b region = (None, [S3_HeadBucket b])"
  by (simp add: ensureBucket_def)

lemma configureBucket_accepted:
  "PutObject c b ''index.html'' content ''text/html'' = None \<Longrightarrow>
   PutBucketWebsite c b ''index.html'' = None \<Longrightarrow>
   PutBucketPolicy c b (bucketPolicy b) = None \<Longrightarrow>
   configureBucket c b content =
     (None, [S3_PutObject b ''index.html'' content ''text/html'',
             S3_PutBucketWebsite b ''index.html'',
             S3_PutBucketPolicy b (bucketPolicy b)])"
  by (simp add: configureBucket_def)

lemma configureBucket_uploads:
  "\<exists>rest. snd (configureBucket c b content) =
     S3_PutObject b ''index.html'' content ''text/html'' # rest"
  by (simp add: configureBucket_def split: option.splits)

lemma configureBucket_policy_failed:
  "fst (configureBucket c b content) = Some (Errorf ''failed to apply S3 bucket policy'' err) \<Longrightarrow>
   S3_PutObject b ''index.html'' content ''text/html'' \<in> set (snd (configureBucket c b content))"
  by (simp add: configureBucket_def split: option.splits)

lemma reconcileS3Bucket_existing:
  assumes client: "GetClient r (defaultRegion pd) = Inr c"
      and exists: "HeadBucket c (DomainName (Spec pd)) = None"
  shows "reconcileS3Bucket r pd =
     (case finalContent r pd of
        (Inl e, tr) \<Rightarrow>
          (Err e, S3_GetClient (defaultRegion pd) # S3_HeadBucket (DomainName (Spec pd)) # tr)
      | (Inr content, tr) \<Rightarrow>
          ((case fst (configureBucket c (DomainName (Spec pd)) content) of
              Some e \<Rightarrow> Err e
            | None \<Rightarrow> Ok (s3Endpoint (DomainName (Spec pd)) (defaultRegion pd))),
           S3_GetClient (defaultRegion pd) # S3_HeadBucket (DomainName (Spec pd)) # tr
             @ snd (configureBucket c (DomainName (Spec pd)) content)))"
  using client ensureBucket_existing [OF exists, of "defaultRegion pd"]
  by (simp add: reconcileS3Bucket_def Let_def split: prod.splits sum.splits option.splits)

lemma reconcileS3Bucket_policy_failed:
  assumes client: "GetClient r (defaultRegion pd) = Inr c"
      and failed: "fst (reconcileS3Bucket r pd) =
                     Err (Errorf ''failed to apply S3 bucket policy'' (AwsError e))"
  shows "\<exists>content tr. finalContent r pd = (Inr content, tr)
           \<and> S3_PutObject (DomainName (Spec pd)) ''index.html'' content ''text/html''
               \<in> set (snd (reconcileS3Bucket r pd))"
proof -
  obtain err1 tr1 where step1: "ensureBucket c (DomainName (Spec pd)) (defaultRegion pd) = (err1, tr1)"
    by (cases "ensureBucket c (DomainName (Spec pd)) (defaultRegion pd)")
  obtain res2 tr2 where step2: "finalContent r pd = (res2, tr2)"
    by (cases "finalContent r pd")
  have no1: "err1 = None"
  proof (cases err1)
    case (Some e1)
    then have "fst (reconcileS3Bucket r pd) = Err e1"
      using client step1 by (simp add: reconcileS3Bucket_def Let_def)
    moreover have "e1 \<noteq> Errorf ''failed to apply S3 bucket policy'' (AwsError e)"
      using step1 Some by (auto simp: ensureBucket_def Let_def split: option.splits if_splits)
    ultimately show ?thesis using failed by simp
  qed simp
  show ?thesis
  proof (cases res2)
    case (Inl e2)
    then have "fst (reconcileS3Bucket r pd) = Err e2"
      using client step1 step2 no1 by (simp add: reconcileS3Bucket_def Let_def)
    moreover have "e2 \<noteq> Errorf ''failed to apply S3 bucket policy'' (AwsError e)"
      using step2 Inl
      by (auto simp: finalContent_def Let_def split: sum.splits option.splits if_splits)
    ultimately show ?thesis using failed by simp
  next
    case (Inr content)
    obtain err3 tr3 where step3: "configureBucket c (DomainName (Spec pd)) content = (err3, tr3)"
      by (cases "configureBucket c (DomainName (Spec pd)) content")
    have run: "reconcileS3Bucket r pd =
        ((case err3 of Some e3 \<Rightarrow> Err e3
                     | None \<Rightarrow> Ok (s3Endpoint (DomainName (Spec pd)) (defaultRegion pd))),
         S3_GetClient (defaultRegion pd) # tr1 @ tr2 @ tr3)"
      using client step1 step2 step3 no1 Inr
      by (simp add: reconcileS3Bucket_def Let_def split: option.splits)
    then have "err3 = Some (Errorf ''failed to apply S3 bucket policy'' (AwsError e))"
      using failed by (simp split: option.splits)
    then have "S3_PutObject (DomainName (Spec pd)) ''index.html'' content ''text/html'' \<in> set tr3"
      using configureBucket_policy_failed [of c "DomainName (Spec pd)" content "AwsError e"] step3
      by simp
    then show ?thesis using run step2 Inr by simp
  qed
qed


lemma configureBucket_no_create:
  "x \<in> set (snd (configureBucket c b content)) \<Longrightarrow> \<not> create_bucket_call x"
  by (auto simp: configureBucket_def split: option.splits)

text \<open>
  Claim C9. With a client for the region of the intent on which the bucket exists:
  \<open>reconcileS3Bucket\<close> sends no creation request. When the template is found, the requests
  start with the existence check, the template lookup and the upload of the index object,
  whose content is the template with every \<open>{{DOMAIN_NAME}}\<close> replaced by the domain name,
  so a function of the template and the domain name alone; when the upload, the website
  configuration and the policy are accepted, those three requests are all sent and the
  endpoint is returned. Hence, after a first call with the same intent, environment and
  ConfigMap that failed at the policy step, a second call on which the bucket exists and the
  three requests are accepted returns the endpoint, ends with the policy request, creates no
  bucket, and uploads only what the first call uploaded.
\<close>

theorem reconcileS3Bucket_resumes:
  assumes client:
      "GetClient r (if Region (Spec pd) = [] then ''eu-central-1'' else Region (Spec pd)) = Inr c"
    and exists: "HeadBucket c (DomainName (Spec pd)) = None"
  shows
    "(let bucketName = DomainName (Spec pd);
          region = (if Region (Spec pd) = [] then ''eu-central-1'' else Region (Spec pd));
          cmKey = (Getenv r ''TEMPLATE_CONFIGMAP_NAME'',
                   if Getenv r ''TEMPLATE_CONFIGMAP_NAMESPACE'' = [] then Namespace pd
                   else Getenv r ''TEMPLATE_CONFIGMAP_NAMESPACE'');
          templateName =
            (if TemplateName (Spec pd) = [] then ''default.html'' else TemplateName (Spec pd));
          endpoint = bucketName @ ''.s3-website.'' @ region @ ''.amazonaws.com'';
          accepted = (\<lambda>content.
              PutObject c bucketName ''index.html'' content ''text/html'' = None
            \<and> PutBucketWebsite c bucketName ''index.html'' = None
            \<and> PutBucketPolicy c bucketName (bucketPolicy bucketName) = None)
      in (\<forall>x \<in> set (snd (reconcileS3Bucket r pd)). \<not> create_bucket_call x)
       \<and> (\<forall>templates template.
             fst cmKey \<noteq> [] \<and> GetConfigMap (Client r) cmKey = Inr templates
             \<and> templates templateName = Some template \<longrightarrow>
             (let content = strings_ReplaceAll template ''{{DOMAIN_NAME}}'' bucketName
              in take 4 (snd (reconcileS3Bucket r pd)) =
                   [S3_GetClient region, S3_HeadBucket bucketName, K8s_GetConfigMap cmKey,
                    S3_PutObject bucketName ''index.html'' content ''text/html'']
               \<and> (accepted content \<longrightarrow>
                    reconcileS3Bucket r pd =
                      (Ok endpoint,
                       [S3_GetClient region, S3_HeadBucket bucketName, K8s_GetConfigMap cmKey,
                        S3_PutObject bucketName ''index.html'' content ''text/html'',
                        S3_PutBucketWebsite bucketName ''index.html'',
                        S3_PutBucketPolicy bucketName (bucketPolicy bucketName)]))))
       \<and> (\<forall>r0 c0 e.
             GetClient r0 region = Inr c0 \<and> Getenv r0 = Getenv r
             \<and> GetConfigMap (Client r0) = GetConfigMap (Client r)
             \<and> fst (reconcileS3Bucket r0 pd) =
                 Err (Errorf ''failed to apply S3 bucket policy'' (AwsError e))
             \<and> (\<forall>content. accepted content) \<longrightarrow>
             fst (reconcileS3Bucket r pd) = Ok endpoint
           \<and> last (snd (reconcileS3Bucket r pd)) =
               S3_PutBucketPolicy bucketName (bucketPolicy bucketName)
           \<and> (\<forall>k body ct.
                 S3_PutObject bucketName k body ct \<in> set (snd (reconcileS3Bucket r pd)) \<longrightarrow>
                 S3_PutObject bucketName k body ct \<in> set (snd (reconcileS3Bucket r0 pd)))))"
proof -
  let ?b = "DomainName (Spec pd)"
  have region: "(if Region (Spec pd) = [] then ''eu-central-1'' else Region (Spec pd)) = defaultRegion pd"
    by (simp add: defaultRegion_def)
  note run = reconcileS3Bucket_existing [OF client [unfolded region] exists]
  have no_create: "\<forall>x \<in> set (snd (reconcileS3Bucket r pd)). \<not> create_bucket_call x"
  proof -
    obtain res tr where content: "finalContent r pd = (res, tr)"
      by (cases "finalContent r pd")
    have "\<forall>x \<in> set tr. \<not> create_bucket_call x"
      using finalContent_no_create [of _ r pd] content by simp
    then show ?thesis
      by (auto simp: run content split: sum.splits dest: configureBucket_no_create)
  qed
  have resolved:
    "take 4 (snd (reconcileS3Bucket r pd)) =
       [S3_GetClient (defaultRegion pd), S3_HeadBucket ?b,
        K8s_GetConfigMap
          (Getenv r ''TEMPLATE_CONFIGMAP_NAME'',
           if Getenv r ''TEMPLATE_CONFIGMAP_NAMESPACE'' = [] then Namespace pd
           else Getenv r ''TEMPLATE_CONFIGMAP_NAMESPACE''),
        S3_PutObject ?b ''index.html'' (strings_ReplaceAll template ''{{DOMAIN_NAME}}'' ?b)
          ''text/html'']
     \<and> (PutObject c ?b ''index.html'' (strings_ReplaceAll template ''{{DOMAIN_NAME}}'' ?b)
            ''text/html'' = None
          \<and> PutBucketWebsite c ?b ''index.html'' = None
          \<and> PutBucketPolicy c ?b (bucketPolicy ?b) = None \<longrightarrow>
        reconcileS3Bucket r pd =
          (Ok (?b @ ''.s3-website.'' @ defaultRegion pd @ ''.amazonaws.com''),
           [S3_GetClient (defaultRegion pd), S3_HeadBucket ?b,
            K8s_GetConfigMap
              (Getenv r ''TEMPLATE_CONFIGMAP_NAME'',
               if Getenv r ''TEMPLATE_CONFIGMAP_NAMESPACE'' = [] then Namespace pd
               else Getenv r ''TEMPLATE_CONFIGMAP_NAMESPACE''),
            S3_PutObject ?b ''index.html'' (strings_ReplaceAll template ''{{DOMAIN_NAME}}'' ?b)
              ''text/html'',
            S3_PutBucketWebsite ?b ''index.html'',
            S3_PutBucketPolicy ?b (bucketPolicy ?b)]))"
    if name: "Getenv r ''TEMPLATE_CONFIGMAP_NAME'' \<noteq> []"
      and cm: "GetConfigMap (Client r)
                 (Getenv r ''TEMPLATE_CONFIGMAP_NAME'',
                  if Getenv r ''TEMPLATE_CONFIGMAP_NAMESPACE'' = [] then Namespace pd
                  else Getenv r ''TEMPLATE_CONFIGMAP_NAMESPACE'') = Inr templates"
      and key: "templates (if TemplateName (Spec pd) = [] then ''default.html''
                           else TemplateName (Spec pd)) = Some template"
    for templates template
  proof -
    note content = finalContent_resolved [OF name cm key]
    obtain rest where up:
      "snd (configureBucket c ?b (strings_ReplaceAll template ''{{DOMAIN_NAME}}'' ?b)) =
         S3_PutObject ?b ''index.html'' (strings_ReplaceAll template ''{{DOMAIN_NAME}}'' ?b)
           ''text/html'' # rest"
      using configureBucket_uploads by blast
    have first: "take 4 (snd (reconcileS3Bucket r pd)) =
       [S3_GetClient (defaultRegion pd), S3_HeadBucket ?b,
        K8s_GetConfigMap
          (Getenv r ''TEMPLATE_CONFIGMAP_NAME'',
           if Getenv r ''TEMPLATE_CONFIGMAP_NAMESPACE'' = [] then Namespace pd
           else Getenv r ''TEMPLATE_CONFIGMAP_NAMESPACE''),
        S3_PutObject ?b ''index.html'' (strings_ReplaceAll template ''{{DOMAIN_NAME}}'' ?b)
          ''text/html'']"
      by (simp add: run content up)
    show ?thesis
      using first by (auto simp: run content configureBucket_accepted s3Endpoint_def)
  qed
  have resumed:
    "fst (reconcileS3Bucket r pd) = Ok (?b @ ''.s3-website.'' @ defaultRegion pd @ ''.amazonaws.com'')
     \<and> last (snd (reconcileS3Bucket r pd)) = S3_PutBucketPolicy ?b (bucketPolicy ?b)
     \<and> (\<forall>k body ct.
           S3_PutObject ?b k body ct \<in> set (snd (reconcileS3Bucket r pd)) \<longrightarrow>
           S3_PutObject ?b k body ct \<in> set (snd (reconcileS3Bucket r0 pd)))"
    if client0: "GetClient r0 (defaultRegion pd) = Inr c0"
      and env: "Getenv r0 = Getenv r"
      and store: "GetConfigMap (Client r0) = GetConfigMap (Client r)"
      and failed: "fst (reconcileS3Bucket r0 pd) =
                     Err (Errorf ''failed to apply S3 bucket policy'' (AwsError e))"
      and accepted: "\<forall>content.
              PutObject c ?b ''index.html'' content ''text/html'' = None
            \<and> PutBucketWebsite c ?b ''index.html'' = None
            \<and> PutBucketPolicy c ?b (bucketPolicy ?b) = None"
    for r0 c0 e
  proof -
    obtain content tr where
      content0: "finalContent r0 pd = (Inr content, tr)"
      and uploaded0: "S3_PutObject ?b ''index.html'' content ''text/html''
                        \<in> set (snd (reconcileS3Bucket r0 pd))"
      using reconcileS3Bucket_policy_failed [OF client0 failed] by blast
    have content: "finalContent r pd = (Inr content, tr)"
      using finalContent_same_inputs [OF env store, of pd] content0 by simp
    have reads: "\<forall>x \<in> set tr. \<exists>k. x = K8s_GetConfigMap k"
      using finalContent_reads [of _ r pd] content by simp
    have conf: "configureBucket c ?b content =
        (None, [S3_PutObject ?b ''index.html'' content ''text/html'',
                S3_PutBucketWebsite ?b ''index.html'',
                S3_PutBucketPolicy ?b (bucketPolicy ?b)])"
      using accepted by (simp add: configureBucket_accepted)
    show ?thesis
      using uploaded0 reads by (auto simp: run content conf s3Endpoint_def)
  qed
  show ?thesis
    unfolding Let_def region fst_conv
    using no_create resolved resumed by blast
qed

lemmas bucket_defs = reconcileS3Bucket_def defaultRegion_def ensureBucket_def finalContent_def
  configureBucket_def s3Endpoint_def

theorem reconcileS3Bucket_resumes_witness:
  "reconcileS3Bucket (testReconciler registeredDomain deniedS3Client MockR53Client)
       registeredDomain =
     (Err (Errorf ''failed to apply S3 bucket policy'' (AwsError (OtherAwsError ''AccessDenied''))),
      [S3_GetClient ''eu-central-1'', S3_HeadBucket ''test.example.com'',
       S3_CreateBucket ''test.example.com'' (Some ''eu-central-1''),
       K8s_GetConfigMap (''parking-templates'', ''default''),
       S3_PutObject ''test.example.com'' ''index.html'' ''<h1>test.example.com</h1>'' ''text/html'',
       S3_PutBucketWebsite ''test.example.com'' ''index.html'',
       S3_PutBucketPolicy ''test.example.com'' (bucketPolicy ''test.example.com'')])
   \<and> reconcileS3Bucket (testReconciler registeredDomain existingS3Client MockR53Client)
       registeredDomain =
     (Ok ''test.example.com.s3-website.eu-central-1.amazonaws.com'',
      [S3_GetClient ''eu-central-1'', S3_HeadBucket ''test.example.com'',
       K8s_GetConfigMap (''parking-templates'', ''default''),
       S3_PutObject ''test.example.com'' ''index.html'' ''<h1>test.example.com</h1>'' ''text/html'',
       S3_PutBucketWebsite ''test.example.com'' ''index.html'',
       S3_PutBucketPolicy ''test.example.com'' (bucketPolicy ''test.example.com'')])"
  using reconcileS3Bucket_resumes
          [of "testReconciler registeredDomain existingS3Client MockR53Client" registeredDomain
              existingS3Client]
  by (simp add: bucket_defs example_defs failure_defs existingS3Client_def Let_def)

end
